theory Spec2Isabelle
  imports Main "HOL-Library.Sublist" "HOL-Library.Word"
begin

section \<open>JavaScript values used by \<open>utils/Circuit.ts\<close>\<close>

text \<open>
  A thrown JavaScript value. The source throws \<open>new Error(msg)\<close>; property access and
  method calls on \<open>undefined\<close> throw a \<open>TypeError\<close>. Both carry a message.
\<close>

datatype js_error = Error string | TypeError string

fun message :: "js_error \<Rightarrow> string" where
  "message (Error m) = m"
| "message (TypeError m) = m"

text \<open>\<open>String.prototype.startsWith\<close>, \<open>endsWith\<close> and \<open>includes\<close>.\<close>

definition startsWith :: "string \<Rightarrow> string \<Rightarrow> bool" where
  "startsWith s p = prefix p s"

definition endsWith :: "string \<Rightarrow> string \<Rightarrow> bool" where
  "endsWith s p = suffix p s"

definition includes_str :: "string \<Rightarrow> string \<Rightarrow> bool" where
  "includes_str s p = sublist p s"

text \<open>
  Reading \<open>xs[i]\<close> from a JavaScript array: an index past the end gives \<open>undefined\<close>
  (\<open>None\<close>), it does not throw.
\<close>

definition js_index :: "'a list \<Rightarrow> nat \<Rightarrow> 'a option" where
  "js_index xs i = (if i < length xs then Some (xs ! i) else None)"

text \<open>
  Reading \<open>row[i]\<close> where \<open>row\<close> itself may be \<open>undefined\<close>: a property read on
  \<open>undefined\<close> throws a \<open>TypeError\<close>.
\<close>

definition js_index_of :: "'a list option \<Rightarrow> nat \<Rightarrow> string \<Rightarrow> js_error + 'a option" where
  "js_index_of row i key =
     (case row of
        None \<Rightarrow> Inl (TypeError (''Cannot read properties of undefined (reading '' @ key @ '')''))
      | Some r \<Rightarrow> Inr (js_index r i))"

text \<open>
  \<open>x.toString()\<close> for an element typed \<open>string\<close>: the string itself; on \<open>undefined\<close>
  the method read throws.
\<close>

definition toString :: "string option \<Rightarrow> js_error + string" where
  "toString x =
     (case x of
        None \<Rightarrow> Inl (TypeError ''Cannot read properties of undefined (reading 'toString')'')
      | Some s \<Rightarrow> Inr s)"

text \<open>\<open>xs.map(f)\<close> where \<open>f\<close> may throw: elements are visited left to right.\<close>

fun map_throwing :: "('a \<Rightarrow> js_error + 'b) \<Rightarrow> 'a list \<Rightarrow> js_error + 'b list" where
  "map_throwing f [] = Inr []"
| "map_throwing f (x # xs) =
     (case f x of
        Inl e \<Rightarrow> Inl e
      | Inr y \<Rightarrow> (case map_throwing f xs of Inl e \<Rightarrow> Inl e | Inr ys \<Rightarrow> Inr (y # ys)))"

section \<open>Proof data (\<open>utils/Circuit.ts\<close>, interfaces)\<close>

record Proof =
  pi_a :: "string list"
  pi_b :: "string list list"
  pi_c :: "string list"
  protocol :: string
  curve :: string

record ProofData =
  offchain_proof :: Proof
  offchain_publicSignals :: "string list"

text \<open>The fields \<open>a\<close>, \<open>b\<close>, \<open>c\<close> of \<open>OnchainProof\<close>, prefixed to keep the letters free.\<close>

record OnchainProof =
  onchain_a :: "string list"
  onchain_b :: "string list list"
  onchain_c :: "string list"

record OnchainProofData =
  onchain_proof :: OnchainProof
  onchain_publicSignals :: "string list"

record ProofResults =
  offchain :: ProofData
  onchain :: OnchainProofData

section \<open>The format adapter inside \<open>generateProof\<close>\<close>

text \<open>
  The object literal \<open>onchainProof\<close> (lines 253-260): entries are read with array
  indexing, so a missing coordinate is \<open>undefined\<close> and a missing row of \<open>pi_b\<close> throws.
\<close>

record RawOnchain =
  raw_a :: "string option list"
  raw_b :: "string option list list"
  raw_c :: "string option list"

definition onchainProof :: "Proof \<Rightarrow> js_error + RawOnchain" where
  "onchainProof p =
     (case js_index_of (js_index (pi_b p) 0) 1 ''1'' of Inl e \<Rightarrow> Inl e | Inr b01 \<Rightarrow>
     (case js_index_of (js_index (pi_b p) 0) 0 ''0'' of Inl e \<Rightarrow> Inl e | Inr b00 \<Rightarrow>
     (case js_index_of (js_index (pi_b p) 1) 1 ''1'' of Inl e \<Rightarrow> Inl e | Inr b11 \<Rightarrow>
     (case js_index_of (js_index (pi_b p) 1) 0 ''0'' of Inl e \<Rightarrow> Inl e | Inr b10 \<Rightarrow>
        Inr \<lparr> raw_a = [js_index (pi_a p) 0, js_index (pi_a p) 1],
              raw_b = [[b01, b00], [b11, b10]],
              raw_c = [js_index (pi_c p) 0, js_index (pi_c p) 1] \<rparr>))))"

text \<open>The \<open>proof\<close> field of the \<open>onchain\<close> result (lines 265-269).\<close>

definition stringify :: "RawOnchain \<Rightarrow> js_error + OnchainProof" where
  "stringify r =
     (case map_throwing toString (raw_a r) of Inl e \<Rightarrow> Inl e | Inr sa \<Rightarrow>
     (case map_throwing (map_throwing toString) (raw_b r) of Inl e \<Rightarrow> Inl e | Inr sb \<Rightarrow>
     (case map_throwing toString (raw_c r) of Inl e \<Rightarrow> Inl e | Inr sc \<Rightarrow>
        Inr \<lparr> onchain_a = sa, onchain_b = sb, onchain_c = sc \<rparr>)))"

definition toOnchain :: "Proof \<Rightarrow> js_error + OnchainProof" where
  "toOnchain p = (case onchainProof p of Inl e \<Rightarrow> Inl e | Inr r \<Rightarrow> stringify r)"

section \<open>Paths, the file system and external tools\<close>

text \<open>
  \<open>path.join\<close> with the POSIX separator: empty segments are dropped and an empty result is
  \<open>.\<close>. Normalisation of \<open>.\<close>, \<open>..\<close> and repeated separators inside a segment is not
  modelled; circuit names are identifiers.
\<close>

fun join_segments :: "string list \<Rightarrow> string" where
  "join_segments [] = []"
| "join_segments [p] = p"
| "join_segments (p # q # ps) = p @ ''/'' @ join_segments (q # ps)"

definition join :: "string list \<Rightarrow> string" where
  "join ps = (let qs = filter (\<lambda>p. p \<noteq> []) ps in if qs = [] then ''.'' else join_segments qs)"

text \<open>\<open>String(n)\<close> for an integer \<open>n\<close>, and for \<open>result.status\<close>, which is a number or \<open>null\<close>.\<close>

fun digits :: "nat \<Rightarrow> string" where
  "digits n = (if n < 10 then [''0123456789'' ! n]
               else digits (n div 10) @ [''0123456789'' ! (n mod 10)])"

definition String_int :: "int \<Rightarrow> string" where
  "String_int i = (if i < 0 then ''-'' @ digits (nat (- i)) else digits (nat i))"

definition String_status :: "int option \<Rightarrow> string" where
  "String_status st = (case st of None \<Rightarrow> ''null'' | Some n \<Rightarrow> String_int n)"

text \<open>
  The file system as the source observes it: \<open>existsSync p\<close> is membership of \<open>p\<close> in
  \<open>paths\<close>, and \<open>readdirSync d\<close> is \<open>entries d\<close>, which throws (\<open>Inl\<close>) or lists names.
\<close>

record filesystem =
  paths :: "string set"
  entries :: "string \<Rightarrow> js_error + string list"

text \<open>The object returned by \<open>spawnSync\<close>: \<open>result.error\<close> and \<open>result.status\<close>.\<close>

record spawn_result =
  error :: "js_error option"
  status :: "int option"

record spawn_options =
  opt_cwd :: string
  opt_shell :: bool

text \<open>
  What the process is given and does not control: the working directory, the platform,
  \<open>path.relative\<close>, the external programs behind \<open>spawnSync\<close> (they read and change the
  file system and yield a result object), and whether \<open>mkdirSync\<close> fails.
\<close>

record env =
  cwd :: string
  platform :: string
  relative :: "string \<Rightarrow> string \<Rightarrow> string"
  spawn :: "string \<Rightarrow> string list \<Rightarrow> spawn_options \<Rightarrow> filesystem \<Rightarrow> spawn_result \<times> filesystem"
  mkdir_error :: "string \<Rightarrow> filesystem \<Rightarrow> js_error option"

text \<open>
  The observable state: the file system, the lines printed by \<open>console.log\<close>, and the
  external invocations made so far, each tagged with the call site that made it.
\<close>

datatype stage = Compile | PtauNew | PtauPrepare | ZkeySetup

record spawn_call =
  site :: stage
  command :: string
  args :: "string list"
  options :: spawn_options

record world =
  fs :: filesystem
  console :: "string list"
  spawned :: "spawn_call list"

definition existsSync :: "world \<Rightarrow> string \<Rightarrow> bool" where
  "existsSync w p = (p \<in> paths (fs w))"

definition console_log :: "string \<Rightarrow> world \<Rightarrow> world" where
  "console_log msg w = w\<lparr>console := console w @ [msg]\<rparr>"

definition mkdirSync :: "env \<Rightarrow> string \<Rightarrow> world \<Rightarrow> (js_error + unit) \<times> world" where
  "mkdirSync e p w =
     (case mkdir_error e p (fs w) of
        Some err \<Rightarrow> (Inl err, w)
      | None \<Rightarrow> (Inr (), w\<lparr>fs := (fs w)\<lparr>paths := insert p (paths (fs w))\<rparr>\<rparr>))"

definition spawnSync ::
  "env \<Rightarrow> stage \<Rightarrow> string \<Rightarrow> string list \<Rightarrow> spawn_options \<Rightarrow> world \<Rightarrow> spawn_result \<times> world" where
  "spawnSync e tag cmd as opts w =
     (case spawn e cmd as opts (fs w) of
        (result, f') \<Rightarrow>
          (result, w\<lparr>fs := f',
                     spawned := spawned w @
                       [\<lparr>site = tag, command = cmd, args = as, options = opts\<rparr>]\<rparr>))"

text \<open>
  The two checks that follow every \<open>spawnSync\<close> in the source: rethrow \<open>result.error\<close>,
  then throw on a status other than \<open>0\<close>; \<open>what\<close> is the text before the status.
\<close>

definition check_result :: "string \<Rightarrow> spawn_result \<Rightarrow> js_error option" where
  "check_result what result =
     (case error result of
        Some err \<Rightarrow> Some err
      | None \<Rightarrow>
          if status result \<noteq> Some 0
          then Some (Error (what @ String_status (status result)))
          else None)"

text \<open>
  Statement sequencing under exceptions: when the first statement throws, the rest is
  not run and the effects made so far stay.
\<close>

definition and_then ::
  "(js_error + unit) \<times> world \<Rightarrow> (world \<Rightarrow> (js_error + 'a) \<times> world) \<Rightarrow> (js_error + 'a) \<times> world" where
  "and_then r k = (case fst r of Inl err \<Rightarrow> (Inl err, snd r) | Inr u \<Rightarrow> k (snd r))"

text \<open>The loop \<open>for (const path of possiblePaths) if (existsSync(path)) ...\<close>.\<close>

fun first_existing :: "filesystem \<Rightarrow> string list \<Rightarrow> string option" where
  "first_existing f [] = None"
| "first_existing f (p # ps) = (if p \<in> paths f then Some p else first_existing f ps)"

section \<open>The toolchain locator \<open>findCircom2\<close>\<close>

text \<open>The loop over \<open>readdirSync(pnpmDir)\<close>; \<open>unshift\<close> puts a candidate in front.\<close>

fun scan_entries :: "string \<Rightarrow> filesystem \<Rightarrow> string list \<Rightarrow> string list \<Rightarrow> string list" where
  "scan_entries pnpmDir f [] possiblePaths = possiblePaths"
| "scan_entries pnpmDir f (entry # rest) possiblePaths =
     (if startsWith entry ''circom2@'' then
        (let candidatePath = join [pnpmDir, entry, ''node_modules'', ''circom2'', ''cli.js'']
         in if candidatePath \<in> paths f
            then scan_entries pnpmDir f rest (candidatePath # possiblePaths)
            else scan_entries pnpmDir f rest possiblePaths)
      else scan_entries pnpmDir f rest possiblePaths)"

definition findCircom2 :: "env \<Rightarrow> filesystem \<Rightarrow> string option" where
  "findCircom2 e f =
     (let possiblePaths =
            [join [cwd e, ''node_modules'', ''circom2'', ''cli.js''],
             join [cwd e, ''node_modules'', ''.bin'', ''circom2'']];
          pnpmDir = join [cwd e, ''node_modules'', ''.pnpm''];
          possiblePaths' =
            (if pnpmDir \<in> paths f then
               (case entries f pnpmDir of
                  Inl err \<Rightarrow> possiblePaths
                | Inr es \<Rightarrow> scan_entries pnpmDir f es possiblePaths)
             else possiblePaths)
      in first_existing f possiblePaths')"

section \<open>The pipeline: \<open>Circuit\<close> constructor, \<open>ensureCompiled\<close>, \<open>runCommand\<close>\<close>

record Circuit =
  circuitName :: string
  circuitPath :: string
  buildDir :: string
  wasmPath :: string
  zkeyPath :: string
  r1csPath :: string

text \<open>
  The head of \<open>runCommand\<close> (lines 160-183): \<open>pnpm\<close> goes through the shell on
  \<open>win32\<close>; elsewhere the first existing of three locations replaces it, if any.
\<close>

definition useShell :: "env \<Rightarrow> string \<Rightarrow> bool" where
  "useShell e cmd = (cmd = ''pnpm'' \<and> platform e = ''win32'')"

definition executable :: "env \<Rightarrow> world \<Rightarrow> string \<Rightarrow> string" where
  "executable e w cmd =
     (if cmd = ''pnpm'' \<and> platform e \<noteq> ''win32'' then
        (case first_existing (fs w)
                [join [cwd e, ''node_modules'', ''.bin'', ''pnpm''],
                 ''/usr/local/bin/pnpm'',
                 ''/opt/homebrew/bin/pnpm''] of
           Some path \<Rightarrow> path
         | None \<Rightarrow> cmd)
      else cmd)"

text \<open>\<open>runCommand\<close> (lines 157-197); \<open>tag\<close> names the call site for the invocation log.\<close>

definition runCommand ::
  "env \<Rightarrow> stage \<Rightarrow> string \<Rightarrow> string list \<Rightarrow> world \<Rightarrow> (js_error + unit) \<times> world" where
  \<open>runCommand e tag cmd as w =
     (case spawnSync e tag (executable e w cmd) as
             \<lparr>opt_cwd = cwd e, opt_shell = useShell e cmd\<rparr> w of
        (result, w') \<Rightarrow>
          (case check_result (''Command "'' @ cmd @ ''" exited with code '') result of
             Some err \<Rightarrow> (Inl err, w')
           | None \<Rightarrow> (Inr (), w')))\<close>

text \<open>
  The program and arguments of the compiler run (lines 76-109): a \<open>cli.js\<close> entry point is
  run by \<open>node\<close>, anything else directly. Both branches of the source make the same call
  with these and apply the same checks to the result.
\<close>

definition compile_command ::
  "env \<Rightarrow> string \<Rightarrow> string \<Rightarrow> string \<Rightarrow> string \<Rightarrow> string \<times> string list" where
  "compile_command e circuitsDir circuitFile outputDir circom2Path =
     (let circom2RelativePath = relative e circuitsDir circom2Path;
          flags = [circuitFile, ''--r1cs'', ''--wasm'', ''--sym'', ''-o'', outputDir]
      in if endsWith circom2Path ''cli.js''
         then (''node'', circom2RelativePath # flags)
         else (circom2RelativePath, flags))"

text \<open>The body of the \<open>try\<close> in \<open>ensureCompiled\<close> (lines 74-121).\<close>

definition compile_try ::
  "env \<Rightarrow> Circuit \<Rightarrow> string \<Rightarrow> string \<Rightarrow> string \<Rightarrow> string \<Rightarrow> world \<Rightarrow> (js_error + unit) \<times> world" where
  "compile_try e circ circuitsDir circuitFile outputDir circom2Path w =
     (case compile_command e circuitsDir circuitFile outputDir circom2Path of
        (cmd, as) \<Rightarrow>
          (case spawnSync e Compile cmd as \<lparr>opt_cwd = circuitsDir, opt_shell = False\<rparr> w of
             (result, w') \<Rightarrow>
               (case check_result ''circom2 exited with code '' result of
                  Some err \<Rightarrow> (Inl err, w')
                | None \<Rightarrow>
                    if \<not> existsSync w' (wasmPath circ)
                    then (Inl (Error ''Circuit compilation failed. Check errors above.''), w')
                    else (Inr (), w'))))"

definition toolchain_not_found :: js_error where
  "toolchain_not_found = Error ''circom2 not found. Install it with: pnpm add -D circom2''"

text \<open>The error built in the \<open>catch\<close> (lines 122-127) from the caught \<open>error.message\<close>.\<close>

definition compilation_error :: "string \<Rightarrow> string \<Rightarrow> string \<Rightarrow> js_error" where
  "compilation_error msg circuitFile outputDir =
     Error (''Circuit compilation error: '' @ msg @ ''. '' @
            ''Compile manually with: cd circuits && circom2 '' @ circuitFile @
            '' --r1cs --wasm --sym -o '' @ outputDir)"

text \<open>The first block of \<open>ensureCompiled\<close> (lines 60-128).\<close>

definition compile_block :: "env \<Rightarrow> Circuit \<Rightarrow> world \<Rightarrow> (js_error + unit) \<times> world" where
  "compile_block e circ w =
     (if \<not> existsSync w (wasmPath circ) then
        (let w1 = console_log (''Compiling circuit '' @ circuitName circ @ ''...'') w;
             circuitsDir = join [cwd e, ''circuits''];
             circuitFile = circuitName circ @ ''.circom'';
             outputDir = ''build''
         in case findCircom2 e (fs w1) of
              None \<Rightarrow> (Inl toolchain_not_found, w1)
            | Some circom2Path \<Rightarrow>
                (case compile_try e circ circuitsDir circuitFile outputDir circom2Path w1 of
                   (Inl err, w2) \<Rightarrow>
                     (Inl (compilation_error (message err) circuitFile outputDir), w2)
                 | (Inr u, w2) \<Rightarrow> (Inr (), w2)))
      else (Inr (), w))"

text \<open>The ceremony files inside the second block (lines 135-147), \<open>ptauSize = 8\<close>.\<close>

definition ptauSize :: int where
  "ptauSize = 8"

definition ptauPath :: "Circuit \<Rightarrow> string" where
  "ptauPath circ = join [buildDir circ, ''pot'' @ String_int ptauSize @ ''_0000.ptau'']"

definition ptauPreparedPath :: "Circuit \<Rightarrow> string" where
  "ptauPreparedPath circ = join [buildDir circ, ''pot'' @ String_int ptauSize @ ''_0000_final.ptau'']"

definition ptau_block :: "env \<Rightarrow> Circuit \<Rightarrow> world \<Rightarrow> (js_error + unit) \<times> world" where
  "ptau_block e circ w =
     (if \<not> existsSync w (ptauPreparedPath circ) then
        and_then
          (if \<not> existsSync w (ptauPath circ) then
             runCommand e PtauNew ''pnpm''
               [''exec'', ''snarkjs'', ''powersoftau'', ''new'', ''bn128'',
                String_int ptauSize, ptauPath circ, ''-v'']
               (console_log (''Generating initial trusted setup file (pot'' @
                             String_int ptauSize @ '')...'') w)
           else (Inr (), w))
          (\<lambda>w1. runCommand e PtauPrepare ''pnpm''
                  [''exec'', ''snarkjs'', ''powersoftau'', ''prepare'', ''phase2'',
                   ptauPath circ, ptauPreparedPath circ, ''-v'']
                  (console_log ''Preparing powers of tau for phase2...'' w1))
      else (Inr (), w))"

definition zkey_setup_args :: "env \<Rightarrow> Circuit \<Rightarrow> string list" where
  "zkey_setup_args e circ =
     [''exec'', ''snarkjs'', ''groth16'', ''setup'',
      join [cwd e, r1csPath circ],
      join [cwd e, ptauPreparedPath circ],
      join [cwd e, zkeyPath circ]]"

text \<open>The second block of \<open>ensureCompiled\<close> (lines 130-154).\<close>

definition zkey_block :: "env \<Rightarrow> Circuit \<Rightarrow> world \<Rightarrow> (js_error + unit) \<times> world" where
  "zkey_block e circ w =
     (if \<not> existsSync w (zkeyPath circ) then
        and_then
          (ptau_block e circ
             (console_log (''Generating zkey for '' @ circuitName circ @ ''...'') w))
          (\<lambda>w1. runCommand e ZkeySetup ''pnpm'' (zkey_setup_args e circ)
                  (console_log ''Generating zkey...'' w1))
      else (Inr (), w))"

definition ensureCompiled :: "env \<Rightarrow> Circuit \<Rightarrow> world \<Rightarrow> (js_error + unit) \<times> world" where
  "ensureCompiled e circ w = and_then (compile_block e circ w) (zkey_block e circ)"

text \<open>The fields set by the constructor (lines 45-50).\<close>

definition Circuit_fields :: "string \<Rightarrow> Circuit" where
  "Circuit_fields name =
     (let bd = join [''circuits'', ''build'']
      in \<lparr> circuitName = name,
           circuitPath = join [''circuits'', name @ ''.circom''],
           buildDir = bd,
           wasmPath = join [bd, name @ ''_js'', name @ ''.wasm''],
           zkeyPath = join [bd, name @ ''.zkey''],
           r1csPath = join [bd, name @ ''.r1cs''] \<rparr>)"

text \<open>Lines 52-54: the build directory is created when it is absent.\<close>

definition ensure_buildDir :: "env \<Rightarrow> Circuit \<Rightarrow> world \<Rightarrow> (js_error + unit) \<times> world" where
  "ensure_buildDir e circ w =
     (if \<not> existsSync w (buildDir circ) then mkdirSync e (buildDir circ) w else (Inr (), w))"

text \<open>\<open>new Circuit(circuitName)\<close> (lines 44-57): the object, or the thrown error.\<close>

definition Circuit_new :: "env \<Rightarrow> string \<Rightarrow> world \<Rightarrow> (js_error + Circuit) \<times> world" where
  "Circuit_new e name w =
     (let circ = Circuit_fields name
      in and_then (ensure_buildDir e circ w)
           (\<lambda>w1. and_then (ensureCompiled e circ w1) (\<lambda>w2. (Inr circ, w2))))"

section \<open>\<open>generateProof\<close>: the stderr hook and the prover call\<close>

text \<open>
  \<open>process.stderr.write(chunk, enc, cb)\<close>. The second argument is an encoding, a callback
  or absent; the third a callback or absent. A callback acts on the stream state \<open>'st\<close>.
  \<open>chunk\<close> is \<open>None\<close> for \<open>null\<close>/\<open>undefined\<close>, else its text.
\<close>

datatype 'st js_arg = Undefined | Encoding string | Callback "'st \<Rightarrow> 'st"

type_synonym 'st write_fn =
  "string option \<Rightarrow> 'st js_arg \<Rightarrow> ('st \<Rightarrow> 'st) option \<Rightarrow> 'st \<Rightarrow> bool \<times> 'st"

record 'st stderr_call =
  chunk :: "string option"
  enc :: "'st js_arg"
  cb :: "('st \<Rightarrow> 'st) option"

text \<open>The process: the function stored in \<open>process.stderr.write\<close> and the stream state.\<close>

record 'st process =
  stderr_write :: "'st write_fn"
  stderr :: 'st

text \<open>\<open>chunk?.toString() || ''\<close> and the test of line 238.\<close>

definition chunk_msg :: "string option \<Rightarrow> string" where
  "chunk_msg ch = (case ch of None \<Rightarrow> [] | Some s \<Rightarrow> s)"

definition is_memory_warning :: "string option \<Rightarrow> bool" where
  "is_memory_warning ch =
     (let msg = chunk_msg ch
      in includes_str msg ''Could not allocate'' \<and> includes_str msg ''severe instability'')"

text \<open>The replacement function of lines 236-244, closed over \<open>originalStderrWrite\<close>.\<close>

definition stderr_hook :: "'st write_fn \<Rightarrow> 'st write_fn" where
  "stderr_hook originalStderrWrite ch en callback st =
     (if is_memory_warning ch then
        (case en of
           Callback f \<Rightarrow> (True, f st)
         | _ \<Rightarrow> (case callback of Some g \<Rightarrow> (True, g st) | None \<Rightarrow> (True, st)))
      else originalStderrWrite ch en callback st)"

text \<open>Writes made while a function is installed go through that function, in order.\<close>

fun run_writes :: "'st write_fn \<Rightarrow> 'st stderr_call list \<Rightarrow> 'st \<Rightarrow> 'st" where
  "run_writes wr [] st = st"
| "run_writes wr (x # xs) st = run_writes wr xs (snd (wr (chunk x) (enc x) (cb x) st))"

text \<open>The input \<open>Record<string, string | string[]>\<close>.\<close>

datatype signal_value = Single string | Many "string list"

type_synonym circuit_input = "(string \<times> signal_value) list"

text \<open>
  The proving library, not part of this repository: \<open>groth16.fullProve\<close> yields the writes
  it makes to \<open>process.stderr\<close> and either rejects or resolves with a proof and the public
  signals; \<open>zKey.exportVerificationKey\<close> and \<open>groth16.verify\<close> reject or resolve.
\<close>

record ('st, 'vk) snarkjs =
  fullProve :: "circuit_input \<Rightarrow> string \<Rightarrow> string \<Rightarrow>
                'st stderr_call list \<times> (js_error + Proof \<times> string list)"
  exportVerificationKey :: "string \<Rightarrow> js_error + 'vk"
  verify :: "'vk \<Rightarrow> string list \<Rightarrow> Proof \<Rightarrow> js_error + bool"

text \<open>The \<open>try\<close> body after the \<open>await\<close> (lines 253-272).\<close>

definition proof_results :: "Proof \<Rightarrow> string list \<Rightarrow> js_error + ProofResults" where
  "proof_results prf publicSignals =
     (case toOnchain prf of
        Inl err \<Rightarrow> Inl err
      | Inr oc \<Rightarrow>
          Inr \<lparr> offchain = \<lparr> offchain_proof = prf, offchain_publicSignals = publicSignals \<rparr>,
                onchain = \<lparr> onchain_proof = oc, onchain_publicSignals = publicSignals \<rparr> \<rparr>)"

text \<open>
  \<open>generateProof\<close> (lines 233-276) is an \<open>async\<close> function: it runs up to the \<open>await\<close> of
  line 247, gives control back, and runs its continuation when the prover has settled.
  \<open>process.stderr.write\<close> belongs to the process, and other tasks, among them other
  \<open>generateProof\<close> calls, run between the two parts. The parts are therefore separate
  steps on the process.
\<close>

text \<open>
  Lines 235-244, up to the \<open>await\<close>: the installed function is saved in the local
  \<open>originalStderrWrite\<close> and the hook closed over it is installed. The bound copy
  \<open>write.bind(process.stderr)\<close> behaves as the function it was taken from, so it is that
  function here.
\<close>

definition install_hook :: "'st process \<Rightarrow> 'st write_fn \<times> 'st process" where
  "install_hook p = (stderr_write p, p\<lparr>stderr_write := stderr_hook (stderr_write p)\<rparr>)"

text \<open>While a prover runs, its writes reach the function installed at that moment.\<close>

definition prover_writes :: "'st stderr_call list \<Rightarrow> 'st process \<Rightarrow> 'st process" where
  "prover_writes ws p = p\<lparr>stderr := run_writes (stderr_write p) ws (stderr p)\<rparr>"

text \<open>The \<open>finally\<close> block (line 274): the call's saved function is written back.\<close>

definition restore_write :: "'st write_fn \<Rightarrow> 'st process \<Rightarrow> 'st process" where
  "restore_write originalStderrWrite p = p\<lparr>stderr_write := originalStderrWrite\<rparr>"

text \<open>
  The continuation after the \<open>await\<close> (lines 247-275): a rejection is rethrown, a
  resolution becomes the two results; the \<open>finally\<close> block runs on both outcomes.
\<close>

definition settle ::
  "'st write_fn \<Rightarrow> js_error + Proof \<times> string list \<Rightarrow> 'st process \<Rightarrow>
   (js_error + ProofResults) \<times> 'st process" where
  "settle originalStderrWrite outcome p =
     ((case outcome of
         Inl err \<Rightarrow> Inl err
       | Inr (prf, publicSignals) \<Rightarrow> proof_results prf publicSignals),
      restore_write originalStderrWrite p)"

text \<open>One call during whose \<open>await\<close> nothing but its own prover runs.\<close>

definition generateProof ::
  "('st, 'vk) snarkjs \<Rightarrow> Circuit \<Rightarrow> circuit_input \<Rightarrow> 'st process \<Rightarrow>
   (js_error + ProofResults) \<times> 'st process" where
  "generateProof lib circ input p =
     (case install_hook p of
        (originalStderrWrite, p1) \<Rightarrow>
          (case fullProve lib input (wasmPath circ) (zkeyPath circ) of
             (writes, outcome) \<Rightarrow> settle originalStderrWrite outcome (prover_writes writes p1)))"

text \<open>
  Two calls on one circuit that overlap, as in
  \<open>Promise.all([c.generateProof(input1), c.generateProof(input2)])\<close>: both run up to their
  \<open>await\<close> before either prover settles, each with its own local
  \<open>originalStderrWrite\<close>; then the first prover writes and settles, then the second.
\<close>

definition generateProof_overlapping ::
  "('st, 'vk) snarkjs \<Rightarrow> Circuit \<Rightarrow> circuit_input \<Rightarrow> circuit_input \<Rightarrow> 'st process \<Rightarrow>
   ((js_error + ProofResults) \<times> (js_error + ProofResults)) \<times> 'st process" where
  "generateProof_overlapping lib circ input1 input2 p =
     (case install_hook p of
        (original1, p1) \<Rightarrow>
     (case install_hook p1 of
        (original2, p2) \<Rightarrow>
     (case fullProve lib input1 (wasmPath circ) (zkeyPath circ) of
        (writes1, outcome1) \<Rightarrow>
     (case fullProve lib input2 (wasmPath circ) (zkeyPath circ) of
        (writes2, outcome2) \<Rightarrow>
     (case settle original1 outcome1 (prover_writes writes1 p2) of
        (res1, p3) \<Rightarrow>
     (case settle original2 outcome2 (prover_writes writes2 p3) of
        (res2, p4) \<Rightarrow> ((res1, res2), p4)))))))"

text \<open>\<open>verifyProof\<close> (lines 278-281).\<close>

definition verifyProof ::
  "('st, 'vk) snarkjs \<Rightarrow> Circuit \<Rightarrow> Proof \<Rightarrow> string list \<Rightarrow> js_error + bool" where
  "verifyProof lib circ prf publicSignals =
     (case exportVerificationKey lib (zkeyPath circ) of
        Inl err \<Rightarrow> Inl err
      | Inr vkey \<Rightarrow> verify lib vkey publicSignals prf)"

section \<open>\<open>contracts/Multiplier.sol\<close>\<close>

type_synonym uint = "256 word"
type_synonym address = "160 word"

text \<open>
  How a call ends when it does not return: \<open>require(_, msg)\<close> reverts with
  \<open>Error(msg)\<close>, a failed bounds check with \<open>Panic(0x32)\<close>, and a revert of a called
  contract is passed on with its own data.
\<close>

datatype revert = RequireFailed string | Panic nat | CalleeReverted "8 word list"

datatype call_result = Returned bool | Reverted revert

datatype event = Verified uint address

text \<open>
  The contract at the stored address, reached through \<open>ICircomVerifier\<close>: a view call
  that returns a boolean or reverts.
\<close>

type_synonym verifiers =
  "address \<Rightarrow> uint \<times> uint \<Rightarrow> (uint \<times> uint) \<times> (uint \<times> uint) \<Rightarrow> uint \<times> uint \<Rightarrow> uint list
   \<Rightarrow> call_result"

record Multiplier =
  verifier :: address

definition Multiplier_new :: "address \<Rightarrow> Multiplier" where
  "Multiplier_new v = \<lparr> verifier = v \<rparr>"

text \<open>
  \<open>check\<close> (lines 23-33): the revert, or the returned value with the events emitted.
  \<open>_pubSignals[0]\<close> is bounds-checked.
\<close>

definition check ::
  "verifiers \<Rightarrow> Multiplier \<Rightarrow> address \<Rightarrow> uint \<times> uint \<Rightarrow> (uint \<times> uint) \<times> (uint \<times> uint) \<Rightarrow>
   uint \<times> uint \<Rightarrow> uint list \<Rightarrow> revert + bool \<times> event list" where
  "check chain this sender pA pB pC pubSignals =
     (case chain (verifier this) pA pB pC pubSignals of
        Reverted r \<Rightarrow> Inl r
      | Returned ok \<Rightarrow>
          if \<not> ok then Inl (RequireFailed ''invalid proof'')
          else (case pubSignals of
                  [] \<Rightarrow> Inl (Panic 0x32)
                | s0 # rest \<Rightarrow> Inr (True, [Verified s0 sender])))"

section \<open>Assumptions on the external tools, and the invocation log\<close>

text \<open>An external program never removes the path \<open>p\<close>.\<close>

definition tools_keep :: "env \<Rightarrow> string \<Rightarrow> bool" where
  "tools_keep e p =
     (\<forall>cmd as opts f. p \<in> paths f \<longrightarrow> p \<in> paths (snd (spawn e cmd as opts f)))"

text \<open>A \<open>groth16 setup\<close> run that ends with status \<open>0\<close> has written the key file.\<close>

definition setup_writes_key :: "env \<Rightarrow> Circuit \<Rightarrow> bool" where
  "setup_writes_key e circ =
     (\<forall>exe opts f.
        error (fst (spawn e exe (zkey_setup_args e circ) opts f)) = None \<longrightarrow>
        status (fst (spawn e exe (zkey_setup_args e circ) opts f)) = Some 0 \<longrightarrow>
        zkeyPath circ \<in> paths (snd (spawn e exe (zkey_setup_args e circ) opts f)))"

text \<open>
  Between \<open>w\<close> and \<open>w'\<close> the log only grew, and the call sites of the new invocations
  form a subsequence of \<open>stages\<close>: each listed stage ran at most once, in that order.
\<close>

definition runs_within :: "world \<Rightarrow> world \<Rightarrow> stage list \<Rightarrow> bool" where
  "runs_within w w' stages =
     (take (length (spawned w)) (spawned w') = spawned w \<and>
      subseq (map site (drop (length (spawned w)) (spawned w'))) stages)"

section \<open>The ceremony and key runs as the specification describes them\<close>

text \<open>The arguments of the two ceremony runs (lines 142 and 146).\<close>

definition ptau_new_args :: "Circuit \<Rightarrow> string list" where
  "ptau_new_args circ =
     [''exec'', ''snarkjs'', ''powersoftau'', ''new'', ''bn128'',
      String_int ptauSize, ptauPath circ, ''-v'']"

definition ptau_prepare_args :: "Circuit \<Rightarrow> string list" where
  "ptau_prepare_args circ =
     [''exec'', ''snarkjs'', ''powersoftau'', ''prepare'', ''phase2'',
      ptauPath circ, ptauPreparedPath circ, ''-v'']"

text \<open>
  What is to be run, in order, for a missing key: if the prepared parameter file is absent,
  the raw file is generated first when it is absent too, then prepared; then the key is
  set up from the constraint system and the prepared parameters.
\<close>

definition prescribed_key_runs :: "env \<Rightarrow> Circuit \<Rightarrow> world \<Rightarrow> (stage \<times> string list) list" where
  "prescribed_key_runs e circ v =
     (if existsSync v (ptauPreparedPath circ) then []
      else (if existsSync v (ptauPath circ) then [] else [(PtauNew, ptau_new_args circ)]) @
           [(PtauPrepare, ptau_prepare_args circ)]) @
     [(ZkeySetup, zkey_setup_args e circ)]"

text \<open>The call sites and arguments of the invocations made between \<open>w\<close> and \<open>w'\<close>.\<close>

definition new_runs :: "world \<Rightarrow> world \<Rightarrow> (stage \<times> string list) list" where
  "new_runs w w' = map (\<lambda>x. (site x, args x)) (drop (length (spawned w)) (spawned w'))"

section \<open>The locator as the specification describes it\<close>

text \<open>
  The nested-store matches in the order they are discovered: the store directory is
  scanned for entries starting with \<open>circom2@\<close> whose \<open>cli.js\<close> exists; a missing or
  unreadable store directory gives no matches.
\<close>

definition store_matches :: "env \<Rightarrow> filesystem \<Rightarrow> string list" where
  "store_matches e f =
     (let pnpmDir = join [cwd e, ''node_modules'', ''.pnpm'']
      in if pnpmDir \<in> paths f then
           (case entries f pnpmDir of
              Inl err \<Rightarrow> []
            | Inr es \<Rightarrow>
                filter (\<lambda>p. p \<in> paths f)
                  (map (\<lambda>entry. join [pnpmDir, entry, ''node_modules'', ''circom2'', ''cli.js''])
                     (filter (\<lambda>entry. startsWith entry ''circom2@'') es)))
         else [])"

section \<open>Concrete scenarios\<close>

text \<open>
  A project at \<open>/repo\<close> on Linux with circuit \<open>multiplier2\<close>. The tools write the file
  their arguments ask for and end with status \<open>0\<close>; any other command ends with status \<open>1\<close>.
\<close>

definition example_circuit :: Circuit where
  "example_circuit = Circuit_fields ''multiplier2''"

definition example_tools ::
  "string \<Rightarrow> string list \<Rightarrow> spawn_options \<Rightarrow> filesystem \<Rightarrow> spawn_result \<times> filesystem" where
  "example_tools cmd as opts f =
     (if ''--wasm'' \<in> set as then
        (\<lparr>error = None, status = Some 0\<rparr>,
         f\<lparr>paths := insert (wasmPath example_circuit) (insert (r1csPath example_circuit) (paths f))\<rparr>)
      else if ''new'' \<in> set as then
        (\<lparr>error = None, status = Some 0\<rparr>, f\<lparr>paths := insert (ptauPath example_circuit) (paths f)\<rparr>)
      else if ''prepare'' \<in> set as then
        (\<lparr>error = None, status = Some 0\<rparr>,
         f\<lparr>paths := insert (ptauPreparedPath example_circuit) (paths f)\<rparr>)
      else if ''setup'' \<in> set as then
        (\<lparr>error = None, status = Some 0\<rparr>, f\<lparr>paths := insert (zkeyPath example_circuit) (paths f)\<rparr>)
      else (\<lparr>error = None, status = Some 1\<rparr>, f))"

definition example_env :: env where
  "example_env =
     \<lparr> cwd = ''/repo'', platform = ''linux'', relative = (\<lambda>from to. to),
       spawn = example_tools, mkdir_error = (\<lambda>p f. None) \<rparr>"

definition fresh_world :: world where
  "fresh_world =
     \<lparr> fs = \<lparr> paths = {''/repo/node_modules/circom2/cli.js''},
              entries = (\<lambda>d. Inl (Error ''ENOENT'')) \<rparr>,
       console = [], spawned = [] \<rparr>"

text \<open>A store with two installed versions of the compiler and an unrelated package.\<close>

definition pnpm_filesystem :: filesystem where
  "pnpm_filesystem =
     \<lparr> paths = {''/repo/node_modules/.pnpm'',
                 ''/repo/node_modules/.pnpm/circom2@0.2.13/node_modules/circom2/cli.js'',
                 ''/repo/node_modules/.pnpm/circom2@0.2.22/node_modules/circom2/cli.js'',
                 ''/repo/node_modules/circom2/cli.js''},
       entries = (\<lambda>d. Inr [''circom2@0.2.13'', ''snarkjs@0.7.5'', ''circom2@0.2.22'', ''circom2@9.9.9'']) \<rparr>"

text \<open>
  A prover that writes three chunks to \<open>stderr\<close>, the first a memory warning, and
  resolves with a proof in the native layout (projective third coordinates included);
  a prover that rejects; a terminal that records every chunk it is given.
\<close>

definition example_proof :: Proof where
  "example_proof =
     \<lparr> pi_a = [''11'', ''12'', ''1''],
       pi_b = [[''21'', ''22''], [''23'', ''24''], [''1'', ''0'']],
       pi_c = [''31'', ''32'', ''1''],
       protocol = ''groth16'', curve = ''bn128'' \<rparr>"

definition example_warning :: string where
  "example_warning = ''Could not allocate 4096 pages; severe instability may follow''"

definition example_writes :: "string list stderr_call list" where
  "example_writes =
     [\<lparr>chunk = Some example_warning, enc = Undefined, cb = None\<rparr>,
      \<lparr>chunk = Some ''Error: Could not allocate witness buffer'', enc = Encoding ''utf8'', cb = None\<rparr>,
      \<lparr>chunk = Some ''severe instability in the prover'', enc = Undefined, cb = None\<rparr>]"

definition example_lib :: "(string list, unit) snarkjs" where
  "example_lib =
     \<lparr> fullProve = (\<lambda>input wasm zkey. (example_writes, Inr (example_proof, [''6'']))),
       exportVerificationKey = (\<lambda>zkey. Inr ()),
       verify = (\<lambda>vkey publicSignals prf. Inr (publicSignals = [''6''])) \<rparr>"

definition failing_lib :: "(string list, unit) snarkjs" where
  "failing_lib = example_lib\<lparr>fullProve := (\<lambda>input wasm zkey. (example_writes, Inl (Error ''Signal not found'')))\<rparr>"

definition terminal_write :: "string list write_fn" where
  "terminal_write ch en callback st = (True, st @ [chunk_msg ch])"

definition example_process :: "string list process" where
  "example_process = \<lparr> stderr_write = terminal_write, stderr = [] \<rparr>"

definition example_input :: circuit_input where
  "example_input = [(''a'', Single ''2''), (''b'', Single ''3'')]"

text \<open>A verifier that accepts every proof, one that rejects every proof.\<close>

definition accepting_chain :: verifiers where
  "accepting_chain addr pA pB pC pubSignals = Returned True"

definition rejecting_chain :: verifiers where
  "rejecting_chain addr pA pB pC pubSignals = Returned False"

definition example_multiplier :: Multiplier where
  "example_multiplier = Multiplier_new 0x1111"

text \<open>
  A build directory that already holds the witness generator and the key but no ceremony
  file; a project without the compiler; tools that cannot be started; tools that exit
  with status \<open>1\<close>.
\<close>

definition keyed_world :: world where
  "keyed_world =
     \<lparr> fs = \<lparr> paths = {''circuits/build'',
                        ''circuits/build/multiplier2_js/multiplier2.wasm'',
                        ''circuits/build/multiplier2.zkey''},
              entries = (\<lambda>d. Inl (Error ''ENOENT'')) \<rparr>,
       console = [], spawned = [] \<rparr>"

definition bare_world :: world where
  "bare_world =
     \<lparr> fs = \<lparr> paths = {}, entries = (\<lambda>d. Inl (Error ''ENOENT'')) \<rparr>,
       console = [], spawned = [] \<rparr>"

definition failing_env :: env where
  "failing_env =
     example_env\<lparr>spawn := (\<lambda>cmd as opts f.
       (\<lparr>error = Some (Error ''spawnSync node ENOENT''), status = None\<rparr>, f))\<rparr>"

definition rejecting_env :: env where
  "rejecting_env =
     example_env\<lparr>spawn := (\<lambda>cmd as opts f. (\<lparr>error = None, status = Some 1\<rparr>, f))\<rparr>"

text \<open>
  A build directory with the compiled artifacts and the raw ceremony file, and neither the
  prepared file nor the key.
\<close>

definition compiled_world :: world where
  "compiled_world =
     \<lparr> fs = \<lparr> paths = {''circuits/build'',
                        ''circuits/build/multiplier2_js/multiplier2.wasm'',
                        ''circuits/build/multiplier2.r1cs'',
                        ''circuits/build/pot8_0000.ptau''},
              entries = (\<lambda>d. Inl (Error ''ENOENT'')) \<rparr>,
       console = [], spawned = [] \<rparr>"

text \<open>
  A library shaped like the \<open>verify\<close> loop of snarkjs, which reads one point \<open>vk.IC[i + 1]\<close>
  of the key per public signal: with more signals than the key has points left the read
  is \<open>undefined\<close> and the call throws; otherwise the verdict is a boolean, here whether the
  signals are the output \<open>6\<close>. The key is its list of \<open>IC\<close> points, two for one public
  signal.
\<close>

definition strict_lib :: "(string list, string list) snarkjs" where
  "strict_lib =
     \<lparr> fullProve = (\<lambda>input wasm zkey. ([], Inr (example_proof, [''6'']))),
       exportVerificationKey = (\<lambda>zkey. Inr [''IC0'', ''IC1'']),
       verify = (\<lambda>ic publicSignals prf.
         if length ic < length publicSignals + 1
         then Inl (TypeError ''Cannot read properties of undefined'')
         else Inr (publicSignals = [''6''])) \<rparr>"

section \<open>Sequencing and the invocation log\<close>

lemma and_then_Inl [simp]: "and_then (Inl err, w) k = (Inl err, w)"
  and and_then_Inr [simp]: "and_then (Inr u, w) k = k w"
  by (simp_all add: and_then_def)

lemma and_then_ok:
  "fst (and_then r k) = Inr x \<Longrightarrow>
   fst r = Inr () \<and> fst (k (snd r)) = Inr x \<and> snd (and_then r k) = snd (k (snd r))"
  by (cases "fst r") (simp_all add: and_then_def)

lemma and_then_world:
  "snd (and_then r k) = snd r \<or> snd (and_then r k) = snd (k (snd r))"
  by (cases "fst r") (simp_all add: and_then_def)

lemma runs_withinI:
  "spawned w' = spawned w @ new \<Longrightarrow> subseq (map site new) stages \<Longrightarrow> runs_within w w' stages"
  by (simp add: runs_within_def)

lemma runs_withinD:
  "runs_within w w' stages \<Longrightarrow>
   \<exists>new. spawned w' = spawned w @ new \<and> subseq (map site new) stages"
  unfolding runs_within_def by (metis append_take_drop_id)

lemma runs_within_refl: "runs_within w w stages"
  by (simp add: runs_within_def)

lemma runs_within_trans:
  assumes "runs_within w w1 xs" "runs_within w1 w2 ys"
  shows "runs_within w w2 (xs @ ys)"
proof -
  from runs_withinD [OF assms(1)] obtain n1
    where n1: "spawned w1 = spawned w @ n1" "subseq (map site n1) xs" by blast
  from runs_withinD [OF assms(2)] obtain n2
    where n2: "spawned w2 = spawned w1 @ n2" "subseq (map site n2) ys" by blast
  from n1 n2 have "spawned w2 = spawned w @ (n1 @ n2)" by simp
  moreover from n1 n2 have "subseq (map site (n1 @ n2)) (xs @ ys)"
    by (simp add: list_emb_append_mono)
  ultimately show ?thesis by (rule runs_withinI)
qed

lemma runs_within_mono:
  "runs_within w w' xs \<Longrightarrow> subseq xs ys \<Longrightarrow> runs_within w w' ys"
  unfolding runs_within_def using subseq_order.order_trans by blast

lemma and_then_runs:
  assumes "runs_within w (snd r) xs" and "\<And>w1. runs_within w1 (snd (k w1)) ys"
  shows "runs_within w (snd (and_then r k)) (xs @ ys)"
proof -
  from and_then_world [of r k] show ?thesis
  proof
    assume "snd (and_then r k) = snd r"
    moreover have "subseq xs (xs @ ys)"
      by (rule list_emb_prefix) simp
    ultimately show ?thesis
      using assms(1) runs_within_mono [of w "snd r" xs "xs @ ys"] by simp
  next
    assume "snd (and_then r k) = snd (k (snd r))"
    with runs_within_trans [OF assms(1) assms(2) [of "snd r"]] show ?thesis by simp
  qed
qed

lemma and_then_keeps:
  assumes "p \<in> paths (fs (snd r))"
    and "\<And>w1. p \<in> paths (fs w1) \<Longrightarrow> p \<in> paths (fs (snd (k w1)))"
  shows "p \<in> paths (fs (snd (and_then r k)))"
  using and_then_world [of r k] assms by auto

lemma console_log_fs [simp]: "fs (console_log m w) = fs w"
  and console_log_spawned [simp]: "spawned (console_log m w) = spawned w"
  and console_log_exists [simp]: "existsSync (console_log m w) p = existsSync w p"
  by (simp_all add: console_log_def existsSync_def)

lemma runs_within_console_log [simp]:
  "runs_within (console_log m w) w' stages = runs_within w w' stages"
  by (simp add: runs_within_def)

section \<open>One external run\<close>

lemma spawnSync_effect:
  "spawnSync e tag cmd as opts w =
     (fst (spawn e cmd as opts (fs w)),
      w\<lparr>fs := snd (spawn e cmd as opts (fs w)),
        spawned := spawned w @ [\<lparr>site = tag, command = cmd, args = as, options = opts\<rparr>]\<rparr>)"
  by (simp add: spawnSync_def split: prod.splits)

lemma check_result_None:
  "check_result what r = None \<longleftrightarrow> error r = None \<and> status r = Some 0"
  by (auto simp: check_result_def split: option.splits)

lemma runCommand_world:
  "snd (runCommand e tag cmd as w) =
     w\<lparr>fs := snd (spawn e (executable e w cmd) as \<lparr>opt_cwd = cwd e, opt_shell = useShell e cmd\<rparr> (fs w)),
       spawned := spawned w @ [\<lparr>site = tag, command = executable e w cmd, args = as,
                                options = \<lparr>opt_cwd = cwd e, opt_shell = useShell e cmd\<rparr>\<rparr>]\<rparr>"
  by (simp add: runCommand_def spawnSync_effect split: option.splits)

lemma runCommand_ok:
  "fst (runCommand e tag cmd as w) = Inr u \<Longrightarrow>
   error (fst (spawn e (executable e w cmd) as \<lparr>opt_cwd = cwd e, opt_shell = useShell e cmd\<rparr> (fs w))) = None \<and>
   status (fst (spawn e (executable e w cmd) as \<lparr>opt_cwd = cwd e, opt_shell = useShell e cmd\<rparr> (fs w))) = Some 0"
  by (simp add: runCommand_def spawnSync_effect split: option.splits)
     (simp add: check_result_None)

lemma runCommand_keeps:
  "tools_keep e p \<Longrightarrow> p \<in> paths (fs w) \<Longrightarrow> p \<in> paths (fs (snd (runCommand e tag cmd as w)))"
  by (simp add: runCommand_world tools_keep_def)

lemma runCommand_runs: "runs_within w (snd (runCommand e tag cmd as w)) [tag]"
  by (rule runs_withinI [where new = "[\<lparr>site = tag, command = executable e w cmd, args = as,
                                options = \<lparr>opt_cwd = cwd e, opt_shell = useShell e cmd\<rparr>\<rparr>]"])
     (simp_all add: runCommand_world)

lemma runCommand_log_runs:
  "runs_within w (snd (runCommand e tag cmd as (console_log m w))) [tag]"
  using runCommand_runs [of "console_log m w" e tag cmd as] by simp

section \<open>The compile block\<close>

lemma compile_try_world:
  "\<exists>cmd as. compile_command e cd cf od p = (cmd, as) \<and>
     snd (compile_try e circ cd cf od p w) =
       w\<lparr>fs := snd (spawn e cmd as \<lparr>opt_cwd = cd, opt_shell = False\<rparr> (fs w)),
         spawned := spawned w @ [\<lparr>site = Compile, command = cmd, args = as,
                                  options = \<lparr>opt_cwd = cd, opt_shell = False\<rparr>\<rparr>]\<rparr>"
  by (cases "compile_command e cd cf od p")
     (simp add: compile_try_def spawnSync_effect split: option.splits)

lemma compile_try_ok:
  "fst (compile_try e circ cd cf od p w) = Inr u \<Longrightarrow>
   wasmPath circ \<in> paths (fs (snd (compile_try e circ cd cf od p w)))"
  by (cases "compile_command e cd cf od p")
     (simp add: compile_try_def spawnSync_effect existsSync_def split: option.splits if_splits)

lemma compile_try_keeps:
  "tools_keep e p \<Longrightarrow> p \<in> paths (fs w) \<Longrightarrow>
   p \<in> paths (fs (snd (compile_try e circ cd cf od c2 w)))"
  using compile_try_world [of e cd cf od c2 circ w] by (auto simp: tools_keep_def)

lemma compile_try_runs: "runs_within w (snd (compile_try e circ cd cf od c2 w)) [Compile]"
  using compile_try_world [of e cd cf od c2 circ w] by (auto intro!: runs_withinI)

lemma compile_block_skip:
  "existsSync w (wasmPath circ) \<Longrightarrow> compile_block e circ w = (Inr (), w)"
  by (simp add: compile_block_def)

lemma compile_block_unfold:
  "compile_block e circ w =
     (if existsSync w (wasmPath circ) then (Inr (), w)
      else case findCircom2 e (fs w) of
             None \<Rightarrow> (Inl toolchain_not_found,
                       console_log (''Compiling circuit '' @ circuitName circ @ ''...'') w)
           | Some c2 \<Rightarrow>
               ((case fst (compile_try e circ (join [cwd e, ''circuits''])
                             (circuitName circ @ ''.circom'') ''build'' c2
                             (console_log (''Compiling circuit '' @ circuitName circ @ ''...'') w)) of
                   Inl err \<Rightarrow> Inl (compilation_error (message err)
                                      (circuitName circ @ ''.circom'') ''build'')
                 | Inr u \<Rightarrow> Inr ()),
                snd (compile_try e circ (join [cwd e, ''circuits''])
                       (circuitName circ @ ''.circom'') ''build'' c2
                       (console_log (''Compiling circuit '' @ circuitName circ @ ''...'') w))))"
  by (simp add: compile_block_def Let_def split: option.splits prod.splits sum.splits)

lemma compile_block_ok:
  assumes "fst (compile_block e circ w) = Inr u"
  shows "wasmPath circ \<in> paths (fs (snd (compile_block e circ w)))"
proof (cases "existsSync w (wasmPath circ)")
  case True
  then show ?thesis by (simp add: compile_block_skip existsSync_def)
next
  case False
  with assms show ?thesis
    by (auto simp: compile_block_unfold compile_try_ok split: option.splits sum.splits)
qed

lemma compile_block_keeps:
  assumes "tools_keep e p" "p \<in> paths (fs w)"
  shows "p \<in> paths (fs (snd (compile_block e circ w)))"
  using assms
  by (simp add: compile_block_unfold compile_try_keeps split: option.splits)

lemma compile_block_runs: "runs_within w (snd (compile_block e circ w)) [Compile]"
proof (cases "existsSync w (wasmPath circ)")
  case True
  then show ?thesis by (simp add: compile_block_unfold runs_within_refl)
next
  case False
  show ?thesis
  proof (cases "findCircom2 e (fs w)")
    case None
    with False show ?thesis
      using runs_within_refl [of "console_log (''Compiling circuit '' @ circuitName circ @ ''...'') w" "[Compile]"]
      by (simp add: compile_block_unfold)
  next
    case (Some c2)
    with False show ?thesis
      using compile_try_runs [of "console_log (''Compiling circuit '' @ circuitName circ @ ''...'') w" e circ _ _ _ c2]
      by (simp add: compile_block_unfold)
  qed
qed

section \<open>The ceremony and key blocks\<close>

lemma ptau_block_skip:
  "existsSync w (ptauPreparedPath circ) \<Longrightarrow> ptau_block e circ w = (Inr (), w)"
  by (simp add: ptau_block_def)

lemma ptau_block_keeps:
  assumes "tools_keep e p" "p \<in> paths (fs w)"
  shows "p \<in> paths (fs (snd (ptau_block e circ w)))"
  unfolding ptau_block_def using assms
  by (auto intro!: and_then_keeps runCommand_keeps)

lemma ptau_block_runs: "runs_within w (snd (ptau_block e circ w)) [PtauNew, PtauPrepare]"
proof -
  have "runs_within w (snd (and_then r (\<lambda>w1. runCommand e PtauPrepare c as (console_log m w1))))
          ([PtauNew] @ [PtauPrepare])"
    if "runs_within w (snd r) [PtauNew]" for r c as m
    using that by (rule and_then_runs) (rule runCommand_log_runs)
  then show ?thesis
    unfolding ptau_block_def
    by (auto simp: runs_within_refl runCommand_log_runs)
qed

lemma zkey_block_skip:
  "existsSync w (zkeyPath circ) \<Longrightarrow> zkey_block e circ w = (Inr (), w)"
  by (simp add: zkey_block_def)

lemma zkey_block_keeps:
  assumes "tools_keep e p" "p \<in> paths (fs w)"
  shows "p \<in> paths (fs (snd (zkey_block e circ w)))"
  unfolding zkey_block_def using assms
  by (auto intro!: and_then_keeps runCommand_keeps ptau_block_keeps)

lemma zkey_block_runs:
  "runs_within w (snd (zkey_block e circ w)) [PtauNew, PtauPrepare, ZkeySetup]"
proof (cases "existsSync w (zkeyPath circ)")
  case True
  then show ?thesis by (simp add: zkey_block_skip runs_within_refl)
next
  case False
  let ?r = "ptau_block e circ (console_log (''Generating zkey for '' @ circuitName circ @ ''...'') w)"
  let ?k = "\<lambda>w1. runCommand e ZkeySetup ''pnpm'' (zkey_setup_args e circ)
                  (console_log ''Generating zkey...'' w1)"
  have "runs_within w (snd ?r) [PtauNew, PtauPrepare]"
    using ptau_block_runs [of "console_log (''Generating zkey for '' @ circuitName circ @ ''...'') w" e circ]
    by simp
  then have "runs_within w (snd (and_then ?r ?k)) ([PtauNew, PtauPrepare] @ [ZkeySetup])"
    by (rule and_then_runs) (rule runCommand_log_runs)
  with False show ?thesis by (simp add: zkey_block_def)
qed

lemma zkey_block_ok:
  assumes "setup_writes_key e circ" "fst (zkey_block e circ w) = Inr u"
  shows "zkeyPath circ \<in> paths (fs (snd (zkey_block e circ w)))"
proof (cases "existsSync w (zkeyPath circ)")
  case True
  then show ?thesis by (simp add: zkey_block_skip existsSync_def)
next
  case False
  let ?r = "ptau_block e circ (console_log (''Generating zkey for '' @ circuitName circ @ ''...'') w)"
  let ?k = "\<lambda>w1. runCommand e ZkeySetup ''pnpm'' (zkey_setup_args e circ)
                  (console_log ''Generating zkey...'' w1)"
  from False have eq: "zkey_block e circ w = and_then ?r ?k"
    by (simp add: zkey_block_def)
  with assms(2) have "fst (?k (snd ?r)) = Inr u" "snd (zkey_block e circ w) = snd (?k (snd ?r))"
    using and_then_ok [of ?r ?k u] by simp_all
  then show ?thesis
    using assms(1) runCommand_ok [of e ZkeySetup "''pnpm''" "zkey_setup_args e circ" "console_log ''Generating zkey...'' (snd ?r)" u]
    by (simp add: runCommand_world setup_writes_key_def)
qed


section \<open>The constructor\<close>

lemma ensureCompiled_keeps:
  assumes "tools_keep e p" "p \<in> paths (fs w)"
  shows "p \<in> paths (fs (snd (ensureCompiled e circ w)))"
  unfolding ensureCompiled_def using assms
  by (auto intro!: and_then_keeps compile_block_keeps zkey_block_keeps)

lemma ensureCompiled_runs:
  "runs_within w (snd (ensureCompiled e circ w)) [Compile, PtauNew, PtauPrepare, ZkeySetup]"
proof -
  have "runs_within w (snd (and_then (compile_block e circ w) (zkey_block e circ)))
          ([Compile] @ [PtauNew, PtauPrepare, ZkeySetup])"
    using compile_block_runs by (rule and_then_runs) (rule zkey_block_runs)
  then show ?thesis by (simp add: ensureCompiled_def)
qed

lemma ensureCompiled_ok:
  assumes ok: "fst (ensureCompiled e circ w) = Inr u"
    and keep: "tools_keep e (wasmPath circ)" and writes: "setup_writes_key e circ"
  shows "wasmPath circ \<in> paths (fs (snd (ensureCompiled e circ w))) \<and>
         zkeyPath circ \<in> paths (fs (snd (ensureCompiled e circ w)))"
proof -
  let ?c = "compile_block e circ w"
  from ok have c: "fst ?c = Inr ()" and z: "fst (zkey_block e circ (snd ?c)) = Inr u"
    and eq: "snd (ensureCompiled e circ w) = snd (zkey_block e circ (snd ?c))"
    using and_then_ok [of ?c "zkey_block e circ" u] by (simp_all add: ensureCompiled_def)
  from c have "wasmPath circ \<in> paths (fs (snd ?c))" by (rule compile_block_ok)
  with keep have "wasmPath circ \<in> paths (fs (snd (zkey_block e circ (snd ?c))))"
    by (rule zkey_block_keeps)
  moreover from writes z have "zkeyPath circ \<in> paths (fs (snd (zkey_block e circ (snd ?c))))"
    by (rule zkey_block_ok)
  ultimately show ?thesis using eq by simp
qed

lemma ensureCompiled_skip:
  "existsSync w (wasmPath circ) \<Longrightarrow> existsSync w (zkeyPath circ) \<Longrightarrow>
   ensureCompiled e circ w = (Inr (), w)"
  by (simp add: ensureCompiled_def compile_block_skip zkey_block_skip)

lemma ensure_buildDir_world:
  "fst (ensure_buildDir e circ w) = Inr u \<Longrightarrow>
   buildDir circ \<in> paths (fs (snd (ensure_buildDir e circ w))) \<and>
   paths (fs (snd (ensure_buildDir e circ w))) = insert (buildDir circ) (paths (fs w)) \<and>
   spawned (snd (ensure_buildDir e circ w)) = spawned w \<and>
   console (snd (ensure_buildDir e circ w)) = console w"
  by (auto simp: ensure_buildDir_def mkdirSync_def existsSync_def split: option.splits if_splits)

lemma ensure_buildDir_skip:
  "existsSync w (buildDir circ) \<Longrightarrow> ensure_buildDir e circ w = (Inr (), w)"
  by (simp add: ensure_buildDir_def)

lemma Circuit_new_ok:
  assumes "Circuit_new e name w = (Inr circ, w')"
  shows "circ = Circuit_fields name \<and>
         fst (ensure_buildDir e circ w) = Inr () \<and>
         fst (ensureCompiled e circ (snd (ensure_buildDir e circ w))) = Inr () \<and>
         w' = snd (ensureCompiled e circ (snd (ensure_buildDir e circ w)))"
proof -
  let ?c = "Circuit_fields name"
  let ?k = "\<lambda>w1. and_then (ensureCompiled e ?c w1) (\<lambda>w2. (Inr ?c, w2))"
  from assms have a: "fst (and_then (ensure_buildDir e ?c w) ?k) = Inr circ"
    and b: "snd (and_then (ensure_buildDir e ?c w) ?k) = w'"
    by (simp_all add: Circuit_new_def Let_def)
  from and_then_ok [OF a] have 1: "fst (ensure_buildDir e ?c w) = Inr ()"
    and 2: "fst (?k (snd (ensure_buildDir e ?c w))) = Inr circ"
    and 3: "snd (and_then (ensure_buildDir e ?c w) ?k) = snd (?k (snd (ensure_buildDir e ?c w)))"
    by simp_all
  from and_then_ok [OF 2] have 5: "circ = ?c"
    by simp
  from and_then_ok [OF 2] have 4: "fst (ensureCompiled e ?c (snd (ensure_buildDir e ?c w))) = Inr ()"
    and 6: "snd (?k (snd (ensure_buildDir e ?c w))) = snd (ensureCompiled e ?c (snd (ensure_buildDir e ?c w)))"
    by auto
  from 1 4 5 6 3 b show ?thesis by simp
qed

section \<open>Pipeline construction\<close>

lemma runs_within_same_log:
  "spawned w = spawned v \<Longrightarrow> runs_within v w' stages \<Longrightarrow> runs_within w w' stages"
  by (simp add: runs_within_def)

lemma Circuit_new_fst:
  assumes "fst (Circuit_new e name w) = Inr circ"
  shows "circ = Circuit_fields name \<and>
         fst (ensure_buildDir e circ w) = Inr () \<and>
         fst (ensureCompiled e circ (snd (ensure_buildDir e circ w))) = Inr () \<and>
         snd (Circuit_new e name w) = snd (ensureCompiled e circ (snd (ensure_buildDir e circ w)))"
proof -
  from assms have "Circuit_new e name w = (Inr circ, snd (Circuit_new e name w))"
    by (simp add: prod_eq_iff)
  from Circuit_new_ok [OF this] show ?thesis .
qed

lemma Circuit_new_skip:
  assumes "existsSync w (buildDir (Circuit_fields name))"
    and "existsSync w (wasmPath (Circuit_fields name))"
    and "existsSync w (zkeyPath (Circuit_fields name))"
  shows "Circuit_new e name w = (Inr (Circuit_fields name), w)"
  using assms by (simp add: Circuit_new_def Let_def ensure_buildDir_skip ensureCompiled_skip)

text \<open>
  C3. Construction is idempotent. With tools that never remove the build directory or the
  witness generator, and whose successful \<open>groth16 setup\<close> writes the key file: after a
  construction that returned, the build directory, the witness generator and the key all
  exist, a second construction returns the same object and leaves the whole state (file
  system, console, invocation log) untouched, and the first construction ran each of
  compile, ceremony \<open>new\<close>, ceremony \<open>prepare\<close> and key setup at most once.
\<close>

theorem construction_idempotent:
  assumes bd: "tools_keep e (buildDir (Circuit_fields name))"
    and wk: "tools_keep e (wasmPath (Circuit_fields name))"
    and sw: "setup_writes_key e (Circuit_fields name)"
    and ok: "fst (Circuit_new e name w) = Inr circ"
  shows "existsSync (snd (Circuit_new e name w)) (buildDir circ) \<and>
         existsSync (snd (Circuit_new e name w)) (wasmPath circ) \<and>
         existsSync (snd (Circuit_new e name w)) (zkeyPath circ) \<and>
         Circuit_new e name (snd (Circuit_new e name w)) = (Inr circ, snd (Circuit_new e name w)) \<and>
         runs_within w (snd (Circuit_new e name w)) [Compile, PtauNew, PtauPrepare, ZkeySetup]"
proof -
  let ?wm = "snd (ensure_buildDir e circ w)"
  let ?w1 = "snd (Circuit_new e name w)"
  from Circuit_new_fst [OF ok] have circ: "circ = Circuit_fields name"
    and mk: "fst (ensure_buildDir e circ w) = Inr ()"
    and ec: "fst (ensureCompiled e circ ?wm) = Inr ()"
    and w1: "?w1 = snd (ensureCompiled e circ ?wm)"
    by blast+
  from ensure_buildDir_world [OF mk] have "buildDir circ \<in> paths (fs ?wm)"
    and log: "spawned ?wm = spawned w"
    by simp_all
  with bd have 1: "existsSync ?w1 (buildDir circ)"
    unfolding w1 existsSync_def circ by (simp add: ensureCompiled_keeps)
  from ensureCompiled_ok [OF ec] wk sw have 2: "existsSync ?w1 (wasmPath circ)"
    and 3: "existsSync ?w1 (zkeyPath circ)"
    unfolding w1 existsSync_def circ by simp_all
  from 1 2 3 have 4: "Circuit_new e name ?w1 = (Inr circ, ?w1)"
    unfolding circ by (rule Circuit_new_skip)
  have "runs_within ?wm ?w1 [Compile, PtauNew, PtauPrepare, ZkeySetup]"
    unfolding w1 by (rule ensureCompiled_runs)
  with log have 5: "runs_within w ?w1 [Compile, PtauNew, PtauPrepare, ZkeySetup]"
    using runs_within_same_log [of w ?wm] by simp
  from 1 2 3 4 5 show ?thesis by blast
qed

lemmas pipeline_eval =
  Circuit_new_def Circuit_fields_def ensure_buildDir_def mkdirSync_def existsSync_def
  ensureCompiled_def compile_block_def compile_try_def compile_command_def zkey_block_def
  ptau_block_def runCommand_def spawnSync_def check_result_def findCircom2_def
  executable_def useShell_def console_log_def join_def endsWith_def startsWith_def
  ptauPath_def ptauPreparedPath_def ptauSize_def String_int_def String_status_def
  zkey_setup_args_def and_then_def Let_def suffix_to_prefix
  toolchain_not_found_def compilation_error_def
  example_env_def example_tools_def fresh_world_def example_circuit_def

lemma example_tools_keep: "tools_keep example_env p"
  by (simp add: tools_keep_def example_env_def example_tools_def)

lemma example_setup_writes_key: "setup_writes_key example_env (Circuit_fields ''multiplier2'')"
  by (simp add: setup_writes_key_def zkey_setup_args_def Circuit_fields_def join_def
      ptauPreparedPath_def ptauSize_def String_int_def Let_def
      example_env_def example_tools_def example_circuit_def)

lemma example_construction:
  "fst (Circuit_new example_env ''multiplier2'' fresh_world) = Inr example_circuit"
  by (simp add: pipeline_eval)

theorem construction_idempotent_witness:
  "fst (Circuit_new example_env ''multiplier2'' fresh_world) = Inr example_circuit \<and>
   \<not> existsSync fresh_world (wasmPath example_circuit) \<and>
   existsSync (snd (Circuit_new example_env ''multiplier2'' fresh_world)) (wasmPath example_circuit) \<and>
   existsSync (snd (Circuit_new example_env ''multiplier2'' fresh_world)) (zkeyPath example_circuit) \<and>
   Circuit_new example_env ''multiplier2'' (snd (Circuit_new example_env ''multiplier2'' fresh_world)) =
     (Inr example_circuit, snd (Circuit_new example_env ''multiplier2'' fresh_world)) \<and>
   runs_within fresh_world (snd (Circuit_new example_env ''multiplier2'' fresh_world))
     [Compile, PtauNew, PtauPrepare, ZkeySetup]"
proof -
  have missing: "\<not> existsSync fresh_world (wasmPath example_circuit)"
    by (simp add: existsSync_def fresh_world_def example_circuit_def Circuit_fields_def join_def)
  from construction_idempotent [OF example_tools_keep example_tools_keep
      example_setup_writes_key example_construction]
    example_construction missing
  show ?thesis by blast
qed

lemma ptau_block_raw_exists:
  assumes "existsSync w (ptauPath circ)"
  shows "runs_within w (snd (ptau_block e circ w)) [PtauPrepare]"
proof (cases "existsSync w (ptauPreparedPath circ)")
  case True
  then show ?thesis by (simp add: ptau_block_skip runs_within_refl)
next
  case False
  with assms show ?thesis by (simp add: ptau_block_def runCommand_log_runs)
qed

text \<open>The invocations a block makes, exactly.\<close>

lemma new_runs_append:
  "spawned w' = spawned w @ new \<Longrightarrow> new_runs w w' = map (\<lambda>x. (site x, args x)) new"
  by (simp add: new_runs_def)

lemma new_runs_trans:
  "spawned w1 = spawned w @ n1 \<Longrightarrow> spawned w2 = spawned w1 @ n2 \<Longrightarrow>
   new_runs w w2 = new_runs w w1 @ new_runs w1 w2"
  by (simp add: new_runs_def)

lemma new_runs_console_log [simp]: "new_runs (console_log m w) w' = new_runs w w'"
  by (simp add: new_runs_def)

lemma runCommand_extends:
  "\<exists>x. spawned (snd (runCommand e tag cmd as w)) = spawned w @ [x] \<and> site x = tag \<and> args x = as"
  by (simp add: runCommand_world)

lemma runCommand_new_runs: "new_runs w (snd (runCommand e tag cmd as w)) = [(tag, as)]"
  by (simp add: new_runs_def runCommand_world)

lemma runCommand_log_extends:
  "\<exists>n. spawned (snd (runCommand e tag cmd as (console_log m w))) = spawned w @ n"
  by (simp add: runCommand_world)

lemma runCommand_log_new_runs:
  "new_runs w (snd (runCommand e tag cmd as (console_log m w))) = [(tag, as)]"
  using runCommand_new_runs [of "console_log m w" e tag cmd as] by simp

lemma runs_within_extends:
  "runs_within w w' stages \<Longrightarrow> \<exists>new. spawned w' = spawned w @ new"
  using runs_withinD by blast

lemma and_then_new_runs:
  assumes ok: "fst (and_then r k) = Inr x"
    and r: "\<exists>n1. spawned (snd r) = spawned w @ n1"
    and k: "\<exists>n2. spawned (snd (k (snd r))) = spawned (snd r) @ n2"
  shows "new_runs w (snd (and_then r k)) = new_runs w (snd r) @ new_runs (snd r) (snd (k (snd r)))"
proof -
  from and_then_ok [OF ok] have "snd (and_then r k) = snd (k (snd r))" by simp
  moreover from r k obtain n1 n2 where "spawned (snd r) = spawned w @ n1"
    "spawned (snd (k (snd r))) = spawned (snd r) @ n2" by blast
  ultimately show ?thesis by (simp add: new_runs_def)
qed

lemma ptau_block_new_runs:
  assumes "fst (ptau_block e circ v) = Inr ()"
  shows "new_runs v (snd (ptau_block e circ v)) =
     (if existsSync v (ptauPreparedPath circ) then []
      else (if existsSync v (ptauPath circ) then [] else [(PtauNew, ptau_new_args circ)]) @
           [(PtauPrepare, ptau_prepare_args circ)])"
proof (cases "existsSync v (ptauPreparedPath circ)")
  case True
  then show ?thesis by (simp add: ptau_block_skip new_runs_def)
next
  case prep: False
  show ?thesis
  proof (cases "existsSync v (ptauPath circ)")
    case True
    with prep show ?thesis
      by (simp add: ptau_block_def runCommand_log_new_runs ptau_prepare_args_def)
  next
    case False
    let ?r = "runCommand e PtauNew ''pnpm'' (ptau_new_args circ)
                (console_log (''Generating initial trusted setup file (pot'' @
                              String_int ptauSize @ '')...'') v)"
    let ?k = "\<lambda>w1. runCommand e PtauPrepare ''pnpm'' (ptau_prepare_args circ)
                (console_log ''Preparing powers of tau for phase2...'' w1)"
    from prep False have eq: "ptau_block e circ v = and_then ?r ?k"
      by (simp add: ptau_block_def ptau_new_args_def ptau_prepare_args_def)
    have r: "\<exists>n1. spawned (snd ?r) = spawned v @ n1"
      by (rule runCommand_log_extends)
    have k: "\<exists>n2. spawned (snd (?k (snd ?r))) = spawned (snd ?r) @ n2"
      by (rule runCommand_log_extends)
    from assms eq have "fst (and_then ?r ?k) = Inr ()" by simp
    from and_then_new_runs [OF this r k]
    have "new_runs v (snd (and_then ?r ?k)) =
            [(PtauNew, ptau_new_args circ)] @ [(PtauPrepare, ptau_prepare_args circ)]"
      by (simp add: runCommand_log_new_runs)
    with prep False eq show ?thesis by simp
  qed
qed

lemma zkey_block_new_runs:
  assumes missing: "\<not> existsSync v (zkeyPath circ)"
    and ok: "fst (zkey_block e circ v) = Inr ()"
  shows "new_runs v (snd (zkey_block e circ v)) = prescribed_key_runs e circ v"
proof -
  let ?v = "console_log (''Generating zkey for '' @ circuitName circ @ ''...'') v"
  let ?r = "ptau_block e circ ?v"
  let ?k = "\<lambda>w1. runCommand e ZkeySetup ''pnpm'' (zkey_setup_args e circ)
                  (console_log ''Generating zkey...'' w1)"
  from missing have eq: "zkey_block e circ v = and_then ?r ?k"
    by (simp add: zkey_block_def)
  with ok have a: "fst (and_then ?r ?k) = Inr ()" by simp
  from and_then_ok [OF a] have pt: "fst ?r = Inr ()" by simp
  have r: "\<exists>n1. spawned (snd ?r) = spawned v @ n1"
    using runs_within_extends [OF ptau_block_runs [of ?v e circ]] by simp
  have k: "\<exists>n2. spawned (snd (?k (snd ?r))) = spawned (snd ?r) @ n2"
    by (rule runCommand_log_extends)
  from and_then_new_runs [OF a r k]
  have "new_runs v (snd (and_then ?r ?k)) =
          new_runs v (snd ?r) @ [(ZkeySetup, zkey_setup_args e circ)]"
    by (simp add: runCommand_log_new_runs)
  moreover from ptau_block_new_runs [OF pt]
  have "new_runs v (snd ?r) =
     (if existsSync v (ptauPreparedPath circ) then []
      else (if existsSync v (ptauPath circ) then [] else [(PtauNew, ptau_new_args circ)]) @
           [(PtauPrepare, ptau_prepare_args circ)])"
    by simp
  ultimately show ?thesis using eq by (simp add: prescribed_key_runs_def)
qed

lemma build_paths_differ:
  "zkeyPath (Circuit_fields name) \<noteq> buildDir (Circuit_fields name)"
  "wasmPath (Circuit_fields name) \<noteq> buildDir (Circuit_fields name)"
  "ptauPath (Circuit_fields name) \<noteq> buildDir (Circuit_fields name)"
  "ptauPreparedPath (Circuit_fields name) \<noteq> buildDir (Circuit_fields name)"
  by (simp_all add: Circuit_fields_def join_def Let_def ptauPath_def ptauPreparedPath_def)


lemma new_runs_same_log: "spawned w = spawned v \<Longrightarrow> new_runs w w' = new_runs v w'"
  by (simp add: new_runs_def)

lemma prescribed_key_runs_cong:
  "existsSync v (ptauPreparedPath circ) = existsSync w (ptauPreparedPath circ) \<Longrightarrow>
   existsSync v (ptauPath circ) = existsSync w (ptauPath circ) \<Longrightarrow>
   prescribed_key_runs e circ v = prescribed_key_runs e circ w"
  by (simp add: prescribed_key_runs_def)

lemma construction_steps:
  assumes "fst (Circuit_new e name w) = Inr circ"
  shows "circ = Circuit_fields name"
    and "paths (fs (snd (ensure_buildDir e circ w))) = insert (buildDir circ) (paths (fs w))"
    and "spawned (snd (ensure_buildDir e circ w)) = spawned w"
    and "fst (zkey_block e circ (snd (compile_block e circ (snd (ensure_buildDir e circ w))))) = Inr ()"
    and "snd (Circuit_new e name w) =
           snd (zkey_block e circ (snd (compile_block e circ (snd (ensure_buildDir e circ w)))))"
proof -
  let ?wm = "snd (ensure_buildDir e circ w)"
  from Circuit_new_fst [OF assms] have circ: "circ = Circuit_fields name"
    and mk: "fst (ensure_buildDir e circ w) = Inr ()"
    and ec: "fst (ensureCompiled e circ ?wm) = Inr ()"
    and w1: "snd (Circuit_new e name w) = snd (ensureCompiled e circ ?wm)"
    by blast+
  show "circ = Circuit_fields name" by (rule circ)
  from ensure_buildDir_world [OF mk]
  show "paths (fs ?wm) = insert (buildDir circ) (paths (fs w))" and "spawned ?wm = spawned w"
    by blast+
  from ec have "fst (and_then (compile_block e circ ?wm) (zkey_block e circ)) = Inr ()"
    by (simp only: ensureCompiled_def)
  from and_then_ok [OF this]
  have a: "fst (zkey_block e circ (snd (compile_block e circ ?wm))) = Inr ()"
    and b: "snd (and_then (compile_block e circ ?wm) (zkey_block e circ)) =
            snd (zkey_block e circ (snd (compile_block e circ ?wm)))"
    by blast+
  show "fst (zkey_block e circ (snd (compile_block e circ ?wm))) = Inr ()" by (rule a)
  show "snd (Circuit_new e name w) = snd (zkey_block e circ (snd (compile_block e circ ?wm)))"
    unfolding w1 ensureCompiled_def by (rule b)
qed

lemma construction_key_runs:
  assumes ok: "fst (Circuit_new e name w) = Inr circ"
    and missing: "\<not> existsSync (snd (compile_block e circ (snd (ensure_buildDir e circ w))))
                     (zkeyPath circ)"
  shows "new_runs (snd (compile_block e circ (snd (ensure_buildDir e circ w))))
           (snd (Circuit_new e name w)) =
         prescribed_key_runs e circ (snd (compile_block e circ (snd (ensure_buildDir e circ w))))"
  unfolding construction_steps(5) [OF ok]
  using missing construction_steps(4) [OF ok] by (rule zkey_block_new_runs)

lemma construction_key_runs_compiled:
  assumes ok: "fst (Circuit_new e name w) = Inr circ"
    and a: "existsSync w (wasmPath circ)" and b: "\<not> existsSync w (zkeyPath circ)"
  shows "new_runs w (snd (Circuit_new e name w)) = prescribed_key_runs e circ w"
proof -
  let ?wm = "snd (ensure_buildDir e circ w)"
  note circ = construction_steps(1) [OF ok]
  note pm = construction_steps(2) [OF ok]
  note log = construction_steps(3) [OF ok]
  from a pm have "existsSync ?wm (wasmPath circ)" by (simp add: existsSync_def)
  then have skip: "snd (compile_block e circ ?wm) = ?wm" by (simp add: compile_block_skip)
  have "zkeyPath circ \<noteq> buildDir circ" unfolding circ by (rule build_paths_differ(1))
  with b pm have "\<not> existsSync ?wm (zkeyPath circ)" by (simp add: existsSync_def)
  with construction_key_runs [OF ok] skip
  have 1: "new_runs ?wm (snd (Circuit_new e name w)) = prescribed_key_runs e circ ?wm"
    by (simp only: not_False_eq_True)
  have "ptauPath circ \<noteq> buildDir circ" "ptauPreparedPath circ \<noteq> buildDir circ"
    unfolding circ by (rule build_paths_differ)+
  with pm have "existsSync ?wm (ptauPreparedPath circ) = existsSync w (ptauPreparedPath circ)"
    "existsSync ?wm (ptauPath circ) = existsSync w (ptauPath circ)"
    by (simp_all add: existsSync_def)
  then have 2: "prescribed_key_runs e circ ?wm = prescribed_key_runs e circ w"
    by (rule prescribed_key_runs_cong)
  from log have 3: "new_runs w (snd (Circuit_new e name w)) = new_runs ?wm (snd (Circuit_new e name w))"
    by (simp only: new_runs_def)
  from 1 2 3 show ?thesis by (simp only:)
qed

lemma construction_skips:
  assumes wk: "tools_keep e (wasmPath (Circuit_fields name))"
    and sw: "setup_writes_key e (Circuit_fields name)"
    and ok: "fst (Circuit_new e name w) = Inr circ"
  shows "existsSync (snd (Circuit_new e name w)) (wasmPath circ) \<and>
         existsSync (snd (Circuit_new e name w)) (zkeyPath circ) \<and>
         (existsSync w (wasmPath circ) \<longrightarrow>
            runs_within w (snd (Circuit_new e name w)) [PtauNew, PtauPrepare, ZkeySetup]) \<and>
         (existsSync w (wasmPath circ) \<and> existsSync w (zkeyPath circ) \<longrightarrow>
            spawned (snd (Circuit_new e name w)) = spawned w \<and>
            console (snd (Circuit_new e name w)) = console w \<and>
            paths (fs (snd (Circuit_new e name w))) = insert (buildDir circ) (paths (fs w))) \<and>
         (\<forall>v. existsSync v (zkeyPath circ) \<longrightarrow> zkey_block e circ v = (Inr (), v)) \<and>
         (\<forall>v. existsSync v (ptauPreparedPath circ) \<longrightarrow> ptau_block e circ v = (Inr (), v)) \<and>
         (\<forall>v. existsSync v (ptauPath circ) \<longrightarrow>
            runs_within v (snd (ptau_block e circ v)) [PtauPrepare])"
proof -
  let ?wm = "snd (ensure_buildDir e circ w)"
  let ?w1 = "snd (Circuit_new e name w)"
  from Circuit_new_fst [OF ok] have circ: "circ = Circuit_fields name"
    and mk: "fst (ensure_buildDir e circ w) = Inr ()"
    and ec: "fst (ensureCompiled e circ ?wm) = Inr ()"
    and w1: "?w1 = snd (ensureCompiled e circ ?wm)"
    by blast+
  from ensure_buildDir_world [OF mk]
  have pm: "paths (fs ?wm) = insert (buildDir circ) (paths (fs w))"
    and log: "spawned ?wm = spawned w" and con: "console ?wm = console w"
    by simp_all
  from ensureCompiled_ok [OF ec] wk sw have 1: "existsSync ?w1 (wasmPath circ)"
    and 2: "existsSync ?w1 (zkeyPath circ)"
    unfolding w1 existsSync_def circ by simp_all
  have 3: "runs_within w ?w1 [PtauNew, PtauPrepare, ZkeySetup]" if "existsSync w (wasmPath circ)"
  proof -
    from that pm have "existsSync ?wm (wasmPath circ)" by (simp add: existsSync_def)
    then have "ensureCompiled e circ ?wm = zkey_block e circ ?wm"
      by (simp add: ensureCompiled_def compile_block_skip)
    then have "runs_within ?wm ?w1 [PtauNew, PtauPrepare, ZkeySetup]"
      unfolding w1 by (simp add: zkey_block_runs)
    with log show ?thesis using runs_within_same_log [of w ?wm] by simp
  qed
  have 4: "spawned ?w1 = spawned w \<and> console ?w1 = console w \<and>
           paths (fs ?w1) = insert (buildDir circ) (paths (fs w))"
    if "existsSync w (wasmPath circ) \<and> existsSync w (zkeyPath circ)"
  proof -
    from that pm have "existsSync ?wm (wasmPath circ)" "existsSync ?wm (zkeyPath circ)"
      by (simp_all add: existsSync_def)
    then have "ensureCompiled e circ ?wm = (Inr (), ?wm)" by (rule ensureCompiled_skip)
    with w1 have "?w1 = ?wm" by simp
    with pm log con show ?thesis by simp
  qed
  from 1 2 3 4 show ?thesis
    by (simp add: zkey_block_skip ptau_block_skip ptau_block_raw_exists)
qed

text \<open>
  C2, amended. With tools that do not remove the witness generator and whose successful
  \<open>groth16 setup\<close> writes the key file, a construction that returns has ensured the witness
  generator and the key artifact. Compilation runs only if the witness generator is
  missing; when both it and the key exist nothing is invoked or printed and the file
  system gains at most the build directory. The ceremony belongs to the key stage: when
  the key exists the whole stage is skipped, whatever ceremony files there are; when the
  key is missing at that point, the stage runs exactly ceremony \<open>new\<close> (only if neither
  ceremony file exists), ceremony \<open>prepare\<close> (only if the prepared file does not exist) and
  key setup, in this order and with the arguments of the source.
\<close>

theorem construction_ensures_artifacts:
  assumes wk: "tools_keep e (wasmPath (Circuit_fields name))"
    and sw: "setup_writes_key e (Circuit_fields name)"
    and ok: "fst (Circuit_new e name w) = Inr circ"
  shows "existsSync (snd (Circuit_new e name w)) (wasmPath circ) \<and>
         existsSync (snd (Circuit_new e name w)) (zkeyPath circ) \<and>
         (existsSync w (wasmPath circ) \<longrightarrow>
            runs_within w (snd (Circuit_new e name w)) [PtauNew, PtauPrepare, ZkeySetup]) \<and>
         (existsSync w (wasmPath circ) \<and> existsSync w (zkeyPath circ) \<longrightarrow>
            spawned (snd (Circuit_new e name w)) = spawned w \<and>
            console (snd (Circuit_new e name w)) = console w \<and>
            paths (fs (snd (Circuit_new e name w))) = insert (buildDir circ) (paths (fs w))) \<and>
         (\<forall>v. existsSync v (zkeyPath circ) \<longrightarrow> zkey_block e circ v = (Inr (), v)) \<and>
         (\<forall>v. existsSync v (ptauPreparedPath circ) \<longrightarrow> ptau_block e circ v = (Inr (), v)) \<and>
         (\<forall>v. existsSync v (ptauPath circ) \<longrightarrow>
            runs_within v (snd (ptau_block e circ v)) [PtauPrepare]) \<and>
         (\<forall>v. \<not> existsSync v (zkeyPath circ) \<longrightarrow> fst (zkey_block e circ v) = Inr () \<longrightarrow>
            new_runs v (snd (zkey_block e circ v)) = prescribed_key_runs e circ v) \<and>
         (\<not> existsSync (snd (compile_block e circ (snd (ensure_buildDir e circ w))))
              (zkeyPath circ) \<longrightarrow>
            new_runs (snd (compile_block e circ (snd (ensure_buildDir e circ w))))
              (snd (Circuit_new e name w)) =
            prescribed_key_runs e circ
              (snd (compile_block e circ (snd (ensure_buildDir e circ w))))) \<and>
         (existsSync w (wasmPath circ) \<longrightarrow> \<not> existsSync w (zkeyPath circ) \<longrightarrow>
            new_runs w (snd (Circuit_new e name w)) = prescribed_key_runs e circ w)"
proof -
  note skips = construction_skips [OF wk sw ok]
  have block: "\<forall>v. \<not> existsSync v (zkeyPath circ) \<longrightarrow> fst (zkey_block e circ v) = Inr () \<longrightarrow>
            new_runs v (snd (zkey_block e circ v)) = prescribed_key_runs e circ v"
    using zkey_block_new_runs by blast
  have after_compile: "\<not> existsSync (snd (compile_block e circ (snd (ensure_buildDir e circ w))))
              (zkeyPath circ) \<longrightarrow>
            new_runs (snd (compile_block e circ (snd (ensure_buildDir e circ w))))
              (snd (Circuit_new e name w)) =
            prescribed_key_runs e circ
              (snd (compile_block e circ (snd (ensure_buildDir e circ w))))"
    using construction_key_runs [OF ok] by blast
  have compiled: "existsSync w (wasmPath circ) \<longrightarrow> \<not> existsSync w (zkeyPath circ) \<longrightarrow>
            new_runs w (snd (Circuit_new e name w)) = prescribed_key_runs e circ w"
    using construction_key_runs_compiled [OF ok] by blast
  from skips block after_compile compiled show ?thesis
    by (elim conjE, intro conjI) assumption+
qed

lemma keyed_construction:
  "Circuit_new example_env ''multiplier2'' keyed_world = (Inr example_circuit, keyed_world)"
  by (simp add: pipeline_eval keyed_world_def)

text \<open>
  C2 as stated fails: when the witness generator and the key exist and the ceremony files
  do not, construction returns without creating either ceremony file.
\<close>

theorem construction_skips_ceremony_counterexample:
  "Circuit_new example_env ''multiplier2'' keyed_world = (Inr example_circuit, keyed_world) \<and>
   \<not> existsSync keyed_world (ptauPath example_circuit) \<and>
   \<not> existsSync keyed_world (ptauPreparedPath example_circuit)"
  by (simp add: pipeline_eval keyed_world_def)

lemma compiled_construction:
  "fst (Circuit_new example_env ''multiplier2'' compiled_world) = Inr example_circuit"
  by (simp add: pipeline_eval compiled_world_def)

lemma compiled_world_state:
  "existsSync compiled_world (wasmPath example_circuit)"
  "\<not> existsSync compiled_world (zkeyPath example_circuit)"
  "prescribed_key_runs example_env example_circuit compiled_world =
     [(PtauPrepare, [''exec'', ''snarkjs'', ''powersoftau'', ''prepare'', ''phase2'',
                     ''circuits/build/pot8_0000.ptau'', ''circuits/build/pot8_0000_final.ptau'',
                     ''-v'']),
      (ZkeySetup, [''exec'', ''snarkjs'', ''groth16'', ''setup'',
                   ''/repo/circuits/build/multiplier2.r1cs'',
                   ''/repo/circuits/build/pot8_0000_final.ptau'',
                   ''/repo/circuits/build/multiplier2.zkey''])]"
  by (simp_all add: prescribed_key_runs_def ptau_prepare_args_def ptau_new_args_def
      zkey_setup_args_def existsSync_def compiled_world_def example_circuit_def example_env_def
      Circuit_fields_def join_def ptauPath_def ptauPreparedPath_def ptauSize_def String_int_def
      Let_def)

theorem construction_ensures_artifacts_witness:
  "fst (Circuit_new example_env ''multiplier2'' fresh_world) = Inr example_circuit \<and>
   existsSync (snd (Circuit_new example_env ''multiplier2'' fresh_world)) (wasmPath example_circuit) \<and>
   existsSync (snd (Circuit_new example_env ''multiplier2'' fresh_world)) (zkeyPath example_circuit) \<and>
   fst (Circuit_new example_env ''multiplier2'' keyed_world) = Inr example_circuit \<and>
   existsSync keyed_world (wasmPath example_circuit) \<and>
   existsSync keyed_world (zkeyPath example_circuit) \<and>
   spawned (snd (Circuit_new example_env ''multiplier2'' keyed_world)) = spawned keyed_world \<and>
   fst (Circuit_new example_env ''multiplier2'' compiled_world) = Inr example_circuit \<and>
   existsSync compiled_world (wasmPath example_circuit) \<and>
   \<not> existsSync compiled_world (zkeyPath example_circuit) \<and>
   new_runs compiled_world (snd (Circuit_new example_env ''multiplier2'' compiled_world)) =
     [(PtauPrepare, [''exec'', ''snarkjs'', ''powersoftau'', ''prepare'', ''phase2'',
                     ''circuits/build/pot8_0000.ptau'', ''circuits/build/pot8_0000_final.ptau'',
                     ''-v'']),
      (ZkeySetup, [''exec'', ''snarkjs'', ''groth16'', ''setup'',
                   ''/repo/circuits/build/multiplier2.r1cs'',
                   ''/repo/circuits/build/pot8_0000_final.ptau'',
                   ''/repo/circuits/build/multiplier2.zkey''])]"
proof -
  have k: "fst (Circuit_new example_env ''multiplier2'' keyed_world) = Inr example_circuit"
    by (simp add: keyed_construction)
  have e1: "existsSync keyed_world (wasmPath example_circuit)"
    and e2: "existsSync keyed_world (zkeyPath example_circuit)"
    by (simp_all add: existsSync_def keyed_world_def example_circuit_def Circuit_fields_def join_def)
  from construction_ensures_artifacts [OF example_tools_keep example_setup_writes_key
      example_construction]
  have a: "existsSync (snd (Circuit_new example_env ''multiplier2'' fresh_world)) (wasmPath example_circuit) \<and>
   existsSync (snd (Circuit_new example_env ''multiplier2'' fresh_world)) (zkeyPath example_circuit)"
    by blast
  from construction_ensures_artifacts [OF example_tools_keep example_setup_writes_key k] e1 e2
  have b: "spawned (snd (Circuit_new example_env ''multiplier2'' keyed_world)) = spawned keyed_world"
    by blast
  from construction_ensures_artifacts [OF example_tools_keep example_setup_writes_key
      compiled_construction] compiled_world_state(1,2)
  have "new_runs compiled_world (snd (Circuit_new example_env ''multiplier2'' compiled_world)) =
          prescribed_key_runs example_env example_circuit compiled_world"
    by blast
  then have c: "new_runs compiled_world (snd (Circuit_new example_env ''multiplier2'' compiled_world)) =
     [(PtauPrepare, [''exec'', ''snarkjs'', ''powersoftau'', ''prepare'', ''phase2'',
                     ''circuits/build/pot8_0000.ptau'', ''circuits/build/pot8_0000_final.ptau'',
                     ''-v'']),
      (ZkeySetup, [''exec'', ''snarkjs'', ''groth16'', ''setup'',
                   ''/repo/circuits/build/multiplier2.r1cs'',
                   ''/repo/circuits/build/pot8_0000_final.ptau'',
                   ''/repo/circuits/build/multiplier2.zkey''])]"
    by (simp only: compiled_world_state(3))
  from example_construction a k e1 e2 b compiled_construction compiled_world_state(1,2) c
  show ?thesis by blast
qed

lemma and_then_throws: "fst r = Inl err \<Longrightarrow> fst (and_then r k) = Inl err"
  by (simp add: and_then_def)

lemma compile_try_fst:
  assumes "compile_command e cd cf od c2 = (cmd, as)"
  shows "fst (compile_try e circ cd cf od c2 w) =
     (case check_result ''circom2 exited with code ''
             (fst (spawn e cmd as \<lparr>opt_cwd = cd, opt_shell = False\<rparr> (fs w))) of
        Some err \<Rightarrow> Inl err
      | None \<Rightarrow>
          if wasmPath circ \<in> paths (snd (spawn e cmd as \<lparr>opt_cwd = cd, opt_shell = False\<rparr> (fs w)))
          then Inr ()
          else Inl (Error ''Circuit compilation failed. Check errors above.''))"
  using assms
  by (simp add: compile_try_def spawnSync_effect existsSync_def split: option.splits)

lemma Circuit_new_compile_throws:
  assumes "fst (ensure_buildDir e (Circuit_fields name) w) = Inr ()"
    and "fst (compile_block e (Circuit_fields name)
               (snd (ensure_buildDir e (Circuit_fields name) w))) = Inl err"
  shows "fst (Circuit_new e name w) = Inl err"
proof -
  let ?c = "Circuit_fields name"
  let ?wm = "snd (ensure_buildDir e ?c w)"
  from assms(2) have "fst (ensureCompiled e ?c ?wm) = Inl err"
    unfolding ensureCompiled_def by (rule and_then_throws)
  then have "fst (and_then (ensureCompiled e ?c ?wm) (\<lambda>w2. (Inr ?c, w2))) = Inl err"
    by (rule and_then_throws)
  with assms(1) show ?thesis
    by (simp add: Circuit_new_def Let_def and_then_def)
qed

text \<open>
  C7, amended. Once the build directory is in place and the witness generator is missing:
  if \<open>findCircom2\<close> finds nothing, construction throws the toolchain-not-found error, which
  is never a compilation error; if the located compiler ends with a status other than
  \<open>0\<close>, construction throws a compilation error whose message carries that status; if the
  compiler cannot be started, construction throws a compilation error whose message
  carries the message of the spawn error.
\<close>

theorem construction_error_kinds:
  assumes mk: "fst (ensure_buildDir e (Circuit_fields name) w) = Inr ()"
    and missing: "\<not> existsSync (snd (ensure_buildDir e (Circuit_fields name) w))
                    (wasmPath (Circuit_fields name))"
  shows "(findCircom2 e (fs (snd (ensure_buildDir e (Circuit_fields name) w))) = None \<longrightarrow>
            fst (Circuit_new e name w) = Inl toolchain_not_found) \<and>
         (\<forall>msg cf od. toolchain_not_found \<noteq> compilation_error msg cf od) \<and>
         (\<forall>c2 cmd as result.
            findCircom2 e (fs (snd (ensure_buildDir e (Circuit_fields name) w))) = Some c2 \<longrightarrow>
            compile_command e (join [cwd e, ''circuits'']) (name @ ''.circom'') ''build'' c2 = (cmd, as) \<longrightarrow>
            fst (spawn e cmd as \<lparr>opt_cwd = join [cwd e, ''circuits''], opt_shell = False\<rparr>
                   (fs (snd (ensure_buildDir e (Circuit_fields name) w)))) = result \<longrightarrow>
            (error result = None \<longrightarrow> status result \<noteq> Some 0 \<longrightarrow>
               fst (Circuit_new e name w) =
                 Inl (compilation_error
                        (''circom2 exited with code '' @ String_status (status result))
                        (name @ ''.circom'') ''build'')) \<and>
            (\<forall>err. error result = Some err \<longrightarrow>
               fst (Circuit_new e name w) =
                 Inl (compilation_error (message err) (name @ ''.circom'') ''build'')))"
proof (intro conjI allI impI)
  let ?c = "Circuit_fields name"
  let ?wm = "snd (ensure_buildDir e ?c w)"
  have nm: "circuitName ?c = name" by (simp add: Circuit_fields_def Let_def)
  show "fst (Circuit_new e name w) = Inl toolchain_not_found"
    if "findCircom2 e (fs ?wm) = None"
  proof -
    from that missing have "fst (compile_block e ?c ?wm) = Inl toolchain_not_found"
      by (simp add: compile_block_unfold)
    with mk show ?thesis by (rule Circuit_new_compile_throws)
  qed
  show "toolchain_not_found \<noteq> compilation_error msg cf od" for msg cf od
    by (simp add: toolchain_not_found_def compilation_error_def)
  fix c2 cmd as result
  assume found: "findCircom2 e (fs ?wm) = Some c2"
    and cc: "compile_command e (join [cwd e, ''circuits'']) (name @ ''.circom'') ''build'' c2 = (cmd, as)"
    and res: "fst (spawn e cmd as \<lparr>opt_cwd = join [cwd e, ''circuits''], opt_shell = False\<rparr> (fs ?wm)) = result"
  let ?t = "compile_try e ?c (join [cwd e, ''circuits'']) (name @ ''.circom'') ''build'' c2
              (console_log (''Compiling circuit '' @ name @ ''...'') ?wm)"
  have blk: "fst (compile_block e ?c ?wm) = Inl (compilation_error (message err) (name @ ''.circom'') ''build'')"
    if "fst ?t = Inl err" for err
    using that missing found by (simp add: compile_block_unfold nm)
  have t: "fst ?t = (case check_result ''circom2 exited with code '' result of
        Some err \<Rightarrow> Inl err
      | None \<Rightarrow>
          if wasmPath ?c \<in> paths (snd (spawn e cmd as \<lparr>opt_cwd = join [cwd e, ''circuits''], opt_shell = False\<rparr> (fs ?wm)))
          then Inr ()
          else Inl (Error ''Circuit compilation failed. Check errors above.''))"
    using compile_try_fst [OF cc, of ?c "console_log (''Compiling circuit '' @ name @ ''...'') ?wm"] res
    by simp
  show "fst (Circuit_new e name w) =
          Inl (compilation_error (''circom2 exited with code '' @ String_status (status result))
                 (name @ ''.circom'') ''build'')"
    if "error result = None" "status result \<noteq> Some 0"
  proof -
    from that have "fst ?t = Inl (Error (''circom2 exited with code '' @ String_status (status result)))"
      unfolding t by (simp add: check_result_def)
    from blk [OF this] have "fst (compile_block e ?c ?wm) =
        Inl (compilation_error (''circom2 exited with code '' @ String_status (status result))
               (name @ ''.circom'') ''build'')"
      by simp
    with mk show ?thesis by (rule Circuit_new_compile_throws)
  qed
  show "fst (Circuit_new e name w) =
          Inl (compilation_error (message err) (name @ ''.circom'') ''build'')"
    if "error result = Some err" for err
  proof -
    from that have "fst ?t = Inl err"
      unfolding t by (simp add: check_result_def)
    from blk [OF this] mk show ?thesis by (rule Circuit_new_compile_throws [rotated])
  qed
qed

text \<open>
  C7 as stated fails for a compiler that cannot be started: there is no exit status, and
  the compilation error carries the spawn error's message instead.
\<close>

theorem spawn_failure_counterexample:
  "fst (Circuit_new failing_env ''multiplier2'' fresh_world) =
     Inl (compilation_error ''spawnSync node ENOENT'' ''multiplier2.circom'' ''build'') \<and>
   \<not> includes_str
       (message (compilation_error ''spawnSync node ENOENT'' ''multiplier2.circom'' ''build''))
       ''exited with code''"
proof
  show "fst (Circuit_new failing_env ''multiplier2'' fresh_world) =
     Inl (compilation_error ''spawnSync node ENOENT'' ''multiplier2.circom'' ''build'')"
    by (simp add: pipeline_eval failing_env_def)
  show "\<not> includes_str
       (message (compilation_error ''spawnSync node ENOENT'' ''multiplier2.circom'' ''build''))
       ''exited with code''"
    by (simp add: compilation_error_def includes_str_def sublist_Cons_right)
qed

theorem construction_error_kinds_witness:
  "fst (Circuit_new example_env ''multiplier2'' bare_world) = Inl toolchain_not_found \<and>
   fst (Circuit_new rejecting_env ''multiplier2'' fresh_world) =
     Inl (compilation_error ''circom2 exited with code 1'' ''multiplier2.circom'' ''build'') \<and>
   fst (Circuit_new failing_env ''multiplier2'' fresh_world) =
     Inl (compilation_error ''spawnSync node ENOENT'' ''multiplier2.circom'' ''build'')"
proof -
  have mk0: "fst (ensure_buildDir example_env (Circuit_fields ''multiplier2'') bare_world) = Inr ()"
    and miss0: "\<not> existsSync (snd (ensure_buildDir example_env (Circuit_fields ''multiplier2'') bare_world))
                  (wasmPath (Circuit_fields ''multiplier2''))"
    and none0: "findCircom2 example_env
                  (fs (snd (ensure_buildDir example_env (Circuit_fields ''multiplier2'') bare_world))) = None"
    by (simp_all add: pipeline_eval bare_world_def)
  from construction_error_kinds [OF mk0 miss0] none0
  have a: "fst (Circuit_new example_env ''multiplier2'' bare_world) = Inl toolchain_not_found"
    by blast
  have mk1: "fst (ensure_buildDir rejecting_env (Circuit_fields ''multiplier2'') fresh_world) = Inr ()"
    and miss1: "\<not> existsSync (snd (ensure_buildDir rejecting_env (Circuit_fields ''multiplier2'') fresh_world))
                  (wasmPath (Circuit_fields ''multiplier2''))"
    and found1: "findCircom2 rejecting_env
                  (fs (snd (ensure_buildDir rejecting_env (Circuit_fields ''multiplier2'') fresh_world))) =
                 Some ''/repo/node_modules/circom2/cli.js''"
    by (simp_all add: pipeline_eval rejecting_env_def)
  from construction_error_kinds [OF mk1 miss1, THEN conjunct2, THEN conjunct2, rule_format,
      OF found1 prod.collapse [symmetric] refl, THEN conjunct1]
  have b: "fst (Circuit_new rejecting_env ''multiplier2'' fresh_world) =
     Inl (compilation_error ''circom2 exited with code 1'' ''multiplier2.circom'' ''build'')"
    by (simp add: rejecting_env_def example_env_def String_status_def String_int_def)
  have mk2: "fst (ensure_buildDir failing_env (Circuit_fields ''multiplier2'') fresh_world) = Inr ()"
    and miss2: "\<not> existsSync (snd (ensure_buildDir failing_env (Circuit_fields ''multiplier2'') fresh_world))
                  (wasmPath (Circuit_fields ''multiplier2''))"
    and found2: "findCircom2 failing_env
                  (fs (snd (ensure_buildDir failing_env (Circuit_fields ''multiplier2'') fresh_world))) =
                 Some ''/repo/node_modules/circom2/cli.js''"
    by (simp_all add: pipeline_eval failing_env_def)
  from construction_error_kinds [OF mk2 miss2, THEN conjunct2, THEN conjunct2, rule_format,
      OF found2 prod.collapse [symmetric] refl, THEN conjunct2]
  have c: "fst (Circuit_new failing_env ''multiplier2'' fresh_world) =
     Inl (compilation_error ''spawnSync node ENOENT'' ''multiplier2.circom'' ''build'')"
    by (simp add: failing_env_def example_env_def)
  from a b c show ?thesis by blast
qed

section \<open>The toolchain locator\<close>

lemma scan_entries_eq:
  "scan_entries d f es acc =
     rev (filter (\<lambda>p. p \<in> paths f)
            (map (\<lambda>entry. join [d, entry, ''node_modules'', ''circom2'', ''cli.js''])
               (filter (\<lambda>entry. startsWith entry ''circom2@'') es))) @ acc"
  by (induction es arbitrary: acc) (simp_all add: Let_def)

lemma first_existing_Some: "first_existing f ps = Some p \<Longrightarrow> p \<in> set ps \<and> p \<in> paths f"
  by (induction ps) (auto split: if_splits)

lemma first_existing_append:
  "first_existing f (ps @ qs) =
     (case first_existing f ps of Some p \<Rightarrow> Some p | None \<Rightarrow> first_existing f qs)"
  by (induction ps) simp_all

lemma first_existing_all_exist:
  "\<forall>p \<in> set ps. p \<in> paths f \<Longrightarrow>
   first_existing f ps = (case ps of [] \<Rightarrow> None | p # _ \<Rightarrow> Some p)"
  by (cases ps) simp_all

lemma findCircom2_eq:
  "findCircom2 e f =
     first_existing f (rev (store_matches e f) @
        [join [cwd e, ''node_modules'', ''circom2'', ''cli.js''],
         join [cwd e, ''node_modules'', ''.bin'', ''circom2'']])"
  by (simp add: findCircom2_def store_matches_def Let_def scan_entries_eq split: sum.splits)

lemma store_matches_exist: "p \<in> set (store_matches e f) \<Longrightarrow> p \<in> paths f"
  unfolding store_matches_def Let_def
  by (cases "join [cwd e, ''node_modules'', ''.pnpm''] \<in> paths f";
      cases "entries f (join [cwd e, ''node_modules'', ''.pnpm''])") simp_all

text \<open>
  C6. \<open>findCircom2\<close> returns a path only if it exists at lookup time, and it is the first
  existing candidate in priority order: the most recently discovered nested-store match,
  else the direct \<open>node_modules/circom2/cli.js\<close>, else the \<open>.bin\<close> alias, else nothing. It
  never throws: a missing or unreadable store directory counts as no matches.
\<close>

theorem findCircom2_priority:
  "findCircom2 e f =
     (if store_matches e f \<noteq> [] then Some (last (store_matches e f))
      else if join [cwd e, ''node_modules'', ''circom2'', ''cli.js''] \<in> paths f
        then Some (join [cwd e, ''node_modules'', ''circom2'', ''cli.js''])
      else if join [cwd e, ''node_modules'', ''.bin'', ''circom2''] \<in> paths f
        then Some (join [cwd e, ''node_modules'', ''.bin'', ''circom2''])
      else None) \<and>
   (\<forall>p. findCircom2 e f = Some p \<longrightarrow> p \<in> paths f) \<and>
   (join [cwd e, ''node_modules'', ''.pnpm''] \<notin> paths f \<or>
    isl (entries f (join [cwd e, ''node_modules'', ''.pnpm''])) \<longrightarrow>
      findCircom2 e f =
        first_existing f [join [cwd e, ''node_modules'', ''circom2'', ''cli.js''],
                          join [cwd e, ''node_modules'', ''.bin'', ''circom2'']])"
proof (intro conjI allI impI)
  show "findCircom2 e f =
     (if store_matches e f \<noteq> [] then Some (last (store_matches e f))
      else if join [cwd e, ''node_modules'', ''circom2'', ''cli.js''] \<in> paths f
        then Some (join [cwd e, ''node_modules'', ''circom2'', ''cli.js''])
      else if join [cwd e, ''node_modules'', ''.bin'', ''circom2''] \<in> paths f
        then Some (join [cwd e, ''node_modules'', ''.bin'', ''circom2''])
      else None)"
  proof (cases "store_matches e f = []")
    case True
    then show ?thesis by (simp add: findCircom2_eq)
  next
    case False
    have "\<forall>p \<in> set (rev (store_matches e f)). p \<in> paths f"
      by (simp add: store_matches_exist)
    then have "first_existing f (rev (store_matches e f)) =
                 (case rev (store_matches e f) of [] \<Rightarrow> None | p # _ \<Rightarrow> Some p)"
      by (rule first_existing_all_exist)
    with False have "first_existing f (rev (store_matches e f)) = Some (last (store_matches e f))"
      by (cases "store_matches e f" rule: rev_cases) simp_all
    with False show ?thesis
      by (simp add: findCircom2_eq first_existing_append)
  qed
next
  fix p assume "findCircom2 e f = Some p"
  then show "p \<in> paths f"
    unfolding findCircom2_eq by (rule first_existing_Some [THEN conjunct2])
next
  assume "join [cwd e, ''node_modules'', ''.pnpm''] \<notin> paths f \<or>
          isl (entries f (join [cwd e, ''node_modules'', ''.pnpm'']))"
  then have "store_matches e f = []"
    by (auto simp: store_matches_def Let_def isl_def)
  then show "findCircom2 e f =
        first_existing f [join [cwd e, ''node_modules'', ''circom2'', ''cli.js''],
                          join [cwd e, ''node_modules'', ''.bin'', ''circom2'']]"
    by (simp add: findCircom2_eq)
qed

theorem findCircom2_priority_witness:
  "findCircom2 example_env pnpm_filesystem =
     Some ''/repo/node_modules/.pnpm/circom2@0.2.22/node_modules/circom2/cli.js'' \<and>
   ''/repo/node_modules/.pnpm/circom2@0.2.22/node_modules/circom2/cli.js'' \<in> paths pnpm_filesystem \<and>
   join [cwd example_env, ''node_modules'', ''.pnpm''] \<notin> paths (fs fresh_world) \<and>
   findCircom2 example_env (fs fresh_world) = Some ''/repo/node_modules/circom2/cli.js''"
proof -
  have m: "store_matches example_env pnpm_filesystem =
            [''/repo/node_modules/.pnpm/circom2@0.2.13/node_modules/circom2/cli.js'',
             ''/repo/node_modules/.pnpm/circom2@0.2.22/node_modules/circom2/cli.js'']"
    by (simp add: store_matches_def example_env_def pnpm_filesystem_def join_def startsWith_def)
  have a: "join [cwd example_env, ''node_modules'', ''.pnpm''] \<notin> paths (fs fresh_world)"
    by (simp add: example_env_def fresh_world_def join_def)
  from findCircom2_priority [of example_env pnpm_filesystem] m
  have 1: "findCircom2 example_env pnpm_filesystem =
     Some ''/repo/node_modules/.pnpm/circom2@0.2.22/node_modules/circom2/cli.js''"
    by simp
  with findCircom2_priority [of example_env pnpm_filesystem]
  have 2: "''/repo/node_modules/.pnpm/circom2@0.2.22/node_modules/circom2/cli.js'' \<in> paths pnpm_filesystem"
    by blast
  from findCircom2_priority [of example_env "fs fresh_world"] a
  have "findCircom2 example_env (fs fresh_world) =
        first_existing (fs fresh_world)
          [join [cwd example_env, ''node_modules'', ''circom2'', ''cli.js''],
           join [cwd example_env, ''node_modules'', ''.bin'', ''circom2'']]"
    by blast
  then have 3: "findCircom2 example_env (fs fresh_world) = Some ''/repo/node_modules/circom2/cli.js''"
    by (simp add: example_env_def fresh_world_def join_def)
  from 1 2 a 3 show ?thesis by simp
qed

section \<open>The format adapter and \<open>generateProof\<close>\<close>

lemma toOnchain_Inr:
  assumes "toOnchain p = Inr oc"
  shows "2 \<le> length (pi_a p) \<and> 2 \<le> length (pi_c p) \<and> 2 \<le> length (pi_b p) \<and>
         2 \<le> length (pi_b p ! 0) \<and> 2 \<le> length (pi_b p ! 1) \<and>
         onchain_a oc = [pi_a p ! 0, pi_a p ! 1] \<and>
         onchain_b oc = [[pi_b p ! 0 ! 1, pi_b p ! 0 ! 0], [pi_b p ! 1 ! 1, pi_b p ! 1 ! 0]] \<and>
         onchain_c oc = [pi_c p ! 0, pi_c p ! 1]"
  using assms
  by (auto simp: toOnchain_def onchainProof_def stringify_def js_index_of_def js_index_def toString_def
      split: sum.splits option.splits if_splits)

lemma generateProof_Inr:
  assumes "fst (generateProof lib circ input p) = Inr r"
  shows "\<exists>prf sigs oc. snd (fullProve lib input (wasmPath circ) (zkeyPath circ)) = Inr (prf, sigs) \<and>
           toOnchain prf = Inr oc \<and>
           offchain r = \<lparr>offchain_proof = prf, offchain_publicSignals = sigs\<rparr> \<and>
           onchain r = \<lparr>onchain_proof = oc, onchain_publicSignals = sigs\<rparr>"
  using assms
  by (auto simp: generateProof_def install_hook_def settle_def proof_results_def
      split: prod.splits sum.splits)

text \<open>
  C1. For every native proof returned by \<open>generateProof\<close>, the on-chain proof of the same
  result has \<open>a = [pi_a[0], pi_a[1]]\<close>, \<open>c = [pi_c[0], pi_c[1]]\<close> and
  \<open>b = [[pi_b[0][1], pi_b[0][0]], [pi_b[1][1], pi_b[1][0]]]\<close>, all as strings; \<open>a\<close> and
  \<open>c\<close> have length 2 and \<open>b\<close> is 2 by 2. The native proof is the one the prover resolved
  with, and every index read is in range.
\<close>

theorem generateProof_onchain_encoding:
  assumes "fst (generateProof lib circ input p) = Inr r"
  shows "snd (fullProve lib input (wasmPath circ) (zkeyPath circ)) =
           Inr (offchain_proof (offchain r), offchain_publicSignals (offchain r)) \<and>
         2 \<le> length (pi_a (offchain_proof (offchain r))) \<and>
         2 \<le> length (pi_c (offchain_proof (offchain r))) \<and>
         2 \<le> length (pi_b (offchain_proof (offchain r))) \<and>
         2 \<le> length (pi_b (offchain_proof (offchain r)) ! 0) \<and>
         2 \<le> length (pi_b (offchain_proof (offchain r)) ! 1) \<and>
         onchain_a (onchain_proof (onchain r)) =
           [pi_a (offchain_proof (offchain r)) ! 0, pi_a (offchain_proof (offchain r)) ! 1] \<and>
         onchain_b (onchain_proof (onchain r)) =
           [[pi_b (offchain_proof (offchain r)) ! 0 ! 1, pi_b (offchain_proof (offchain r)) ! 0 ! 0],
            [pi_b (offchain_proof (offchain r)) ! 1 ! 1, pi_b (offchain_proof (offchain r)) ! 1 ! 0]] \<and>
         onchain_c (onchain_proof (onchain r)) =
           [pi_c (offchain_proof (offchain r)) ! 0, pi_c (offchain_proof (offchain r)) ! 1] \<and>
         length (onchain_a (onchain_proof (onchain r))) = 2 \<and>
         length (onchain_b (onchain_proof (onchain r))) = 2 \<and>
         (\<forall>row \<in> set (onchain_b (onchain_proof (onchain r))). length row = 2) \<and>
         length (onchain_c (onchain_proof (onchain r))) = 2"
proof -
  from generateProof_Inr [OF assms] obtain pr sigs oc
    where f: "snd (fullProve lib input (wasmPath circ) (zkeyPath circ)) = Inr (pr, sigs)"
      and t: "toOnchain pr = Inr oc"
      and offc: "offchain r = \<lparr>offchain_proof = pr, offchain_publicSignals = sigs\<rparr>"
      and onc: "onchain r = \<lparr>onchain_proof = oc, onchain_publicSignals = sigs\<rparr>"
    by blast
  from toOnchain_Inr [OF t] f offc onc show ?thesis by simp
qed

lemmas generateProof_eval =
  generateProof_def install_hook_def settle_def prover_writes_def restore_write_def
  proof_results_def toOnchain_def onchainProof_def stringify_def
  js_index_of_def js_index_def toString_def Let_def
  example_lib_def example_proof_def example_process_def

theorem generateProof_onchain_encoding_witness:
  "fst (generateProof example_lib example_circuit example_input example_process) =
     Inr \<lparr> offchain = \<lparr> offchain_proof = example_proof, offchain_publicSignals = [''6''] \<rparr>,
           onchain = \<lparr> onchain_proof =
                         \<lparr> onchain_a = [''11'', ''12''],
                           onchain_b = [[''22'', ''21''], [''24'', ''23'']],
                           onchain_c = [''31'', ''32''] \<rparr>,
                       onchain_publicSignals = [''6''] \<rparr> \<rparr> \<and>
   onchain_b (onchain_proof (onchain
     \<lparr> offchain = \<lparr> offchain_proof = example_proof, offchain_publicSignals = [''6''] \<rparr>,
       onchain = \<lparr> onchain_proof =
                     \<lparr> onchain_a = [''11'', ''12''],
                       onchain_b = [[''22'', ''21''], [''24'', ''23'']],
                       onchain_c = [''31'', ''32''] \<rparr>,
                   onchain_publicSignals = [''6''] \<rparr> \<rparr>)) =
     [[pi_b example_proof ! 0 ! 1, pi_b example_proof ! 0 ! 0],
      [pi_b example_proof ! 1 ! 1, pi_b example_proof ! 1 ! 0]]"
proof -
  have h: "fst (generateProof example_lib example_circuit example_input example_process) =
     Inr \<lparr> offchain = \<lparr> offchain_proof = example_proof, offchain_publicSignals = [''6''] \<rparr>,
           onchain = \<lparr> onchain_proof =
                         \<lparr> onchain_a = [''11'', ''12''],
                           onchain_b = [[''22'', ''21''], [''24'', ''23'']],
                           onchain_c = [''31'', ''32''] \<rparr>,
                       onchain_publicSignals = [''6''] \<rparr> \<rparr>"
    by (simp add: generateProof_eval)
  from generateProof_onchain_encoding [OF h] h show ?thesis by simp
qed

text \<open>
  C9. For every successful \<open>generateProof\<close> call, the \<open>publicSignals\<close> of the on-chain
  result are the \<open>publicSignals\<close> of the off-chain result.
\<close>

theorem generateProof_same_publicSignals:
  assumes "fst (generateProof lib circ input p) = Inr r"
  shows "onchain_publicSignals (onchain r) = offchain_publicSignals (offchain r)"
proof -
  from generateProof_Inr [OF assms] obtain pr sigs oc
    where "offchain r = \<lparr>offchain_proof = pr, offchain_publicSignals = sigs\<rparr>"
      and "onchain r = \<lparr>onchain_proof = oc, onchain_publicSignals = sigs\<rparr>"
    by blast
  then show ?thesis by simp
qed

theorem generateProof_same_publicSignals_witness:
  "fst (generateProof example_lib example_circuit example_input example_process) =
     Inr \<lparr> offchain = \<lparr> offchain_proof = example_proof, offchain_publicSignals = [''6''] \<rparr>,
           onchain = \<lparr> onchain_proof =
                         \<lparr> onchain_a = [''11'', ''12''],
                           onchain_b = [[''22'', ''21''], [''24'', ''23'']],
                           onchain_c = [''31'', ''32''] \<rparr>,
                       onchain_publicSignals = [''6''] \<rparr> \<rparr> \<and>
   onchain_publicSignals
     \<lparr> onchain_proof =
         \<lparr> onchain_a = [''11'', ''12''],
           onchain_b = [[''22'', ''21''], [''24'', ''23'']],
           onchain_c = [''31'', ''32''] \<rparr>,
       onchain_publicSignals = [''6''] \<rparr> =
   offchain_publicSignals \<lparr> offchain_proof = example_proof, offchain_publicSignals = [''6''] \<rparr>"
proof -
  have h: "fst (generateProof example_lib example_circuit example_input example_process) =
     Inr \<lparr> offchain = \<lparr> offchain_proof = example_proof, offchain_publicSignals = [''6''] \<rparr>,
           onchain = \<lparr> onchain_proof =
                         \<lparr> onchain_a = [''11'', ''12''],
                           onchain_b = [[''22'', ''21''], [''24'', ''23'']],
                           onchain_c = [''31'', ''32''] \<rparr>,
                       onchain_publicSignals = [''6''] \<rparr> \<rparr>"
    by (simp add: generateProof_eval)
  from generateProof_same_publicSignals [OF h] h show ?thesis by simp
qed

lemma run_writes_hook_filter:
  assumes "\<forall>x \<in> set ws. is_memory_warning (chunk x) \<longrightarrow>
             (\<forall>f. enc x \<noteq> Callback f) \<and> cb x = None"
  shows "run_writes (stderr_hook orig) ws st =
         run_writes orig (filter (\<lambda>x. \<not> is_memory_warning (chunk x)) ws) st"
  using assms
proof (induction ws arbitrary: st)
  case Nil
  then show ?case by simp
next
  case (Cons x xs)
  show ?case
  proof (cases "is_memory_warning (chunk x)")
    case True
    with Cons.prems have "snd (stderr_hook orig (chunk x) (enc x) (cb x) st) = st"
      by (cases "enc x") (simp_all add: stderr_hook_def)
    with True Cons show ?thesis by simp
  next
    case False
    then have "stderr_hook orig (chunk x) (enc x) (cb x) st = orig (chunk x) (enc x) (cb x) st"
      by (simp add: stderr_hook_def)
    with False Cons show ?thesis by simp
  qed
qed

lemma generateProof_process:
  "snd (generateProof lib circ input p) =
     p\<lparr>stderr := run_writes (stderr_hook (stderr_write p))
                    (fst (fullProve lib input (wasmPath circ) (zkeyPath circ))) (stderr p)\<rparr>"
  by (simp add: generateProof_def install_hook_def settle_def prover_writes_def restore_write_def
      split: prod.splits)

text \<open>
  A call that runs alone leaves \<open>process.stderr.write\<close> as it found it, whether the
  prover resolves or rejects; during the call the installed function is the hook. The hook
  suppresses a chunk exactly when its text contains both \<open>Could not allocate\<close> and
  \<open>severe instability\<close> (it then only runs the callback, if any, and returns \<open>true\<close>) and
  hands every other chunk to the original function with the same arguments. When the
  suppressed writes carry no callback, the stream ends as if the original function had
  received exactly the other writes.
\<close>

lemma generateProof_alone_scoped:
  "stderr_write (snd (generateProof lib circ input p)) = stderr_write p \<and>
   stderr (snd (generateProof lib circ input p)) =
     run_writes (stderr_hook (stderr_write p))
       (fst (fullProve lib input (wasmPath circ) (zkeyPath circ))) (stderr p) \<and>
   (\<forall>ch. is_memory_warning ch \<longleftrightarrow>
      includes_str (chunk_msg ch) ''Could not allocate'' \<and>
      includes_str (chunk_msg ch) ''severe instability'') \<and>
   (\<forall>ch en callback st. \<not> is_memory_warning ch \<longrightarrow>
      stderr_hook orig ch en callback st = orig ch en callback st) \<and>
   (\<forall>ch en callback st. is_memory_warning ch \<longrightarrow>
      stderr_hook orig ch en callback st =
        (True, case en of Callback f \<Rightarrow> f st
               | _ \<Rightarrow> (case callback of Some g \<Rightarrow> g st | None \<Rightarrow> st))) \<and>
   ((\<forall>x \<in> set (fst (fullProve lib input (wasmPath circ) (zkeyPath circ))).
        is_memory_warning (chunk x) \<longrightarrow> (\<forall>f. enc x \<noteq> Callback f) \<and> cb x = None) \<longrightarrow>
    stderr (snd (generateProof lib circ input p)) =
      run_writes (stderr_write p)
        (filter (\<lambda>x. \<not> is_memory_warning (chunk x))
           (fst (fullProve lib input (wasmPath circ) (zkeyPath circ))))
        (stderr p))"
proof (intro conjI allI impI)
  show "stderr_write (snd (generateProof lib circ input p)) = stderr_write p"
    by (simp add: generateProof_process)
  show "stderr (snd (generateProof lib circ input p)) =
     run_writes (stderr_hook (stderr_write p))
       (fst (fullProve lib input (wasmPath circ) (zkeyPath circ))) (stderr p)"
    by (simp add: generateProof_process)
  show "is_memory_warning ch \<longleftrightarrow>
      includes_str (chunk_msg ch) ''Could not allocate'' \<and>
      includes_str (chunk_msg ch) ''severe instability''" for ch
    by (simp add: is_memory_warning_def Let_def)
  show "stderr_hook orig ch en callback st = orig ch en callback st"
    if "\<not> is_memory_warning ch" for ch en callback st
    using that by (simp add: stderr_hook_def)
  show "stderr_hook orig ch en callback st =
        (True, case en of Callback f \<Rightarrow> f st
               | _ \<Rightarrow> (case callback of Some g \<Rightarrow> g st | None \<Rightarrow> st))"
    if "is_memory_warning ch" for ch en callback st
    using that by (simp add: stderr_hook_def split: js_arg.splits option.splits)
  show "stderr (snd (generateProof lib circ input p)) =
      run_writes (stderr_write p)
        (filter (\<lambda>x. \<not> is_memory_warning (chunk x))
           (fst (fullProve lib input (wasmPath circ) (zkeyPath circ))))
        (stderr p)"
    if "\<forall>x \<in> set (fst (fullProve lib input (wasmPath circ) (zkeyPath circ))).
          is_memory_warning (chunk x) \<longrightarrow> (\<forall>f. enc x \<noteq> Callback f) \<and> cb x = None"
    using run_writes_hook_filter [OF that] by (simp add: generateProof_process)
qed

lemma example_warning_suppressed: "is_memory_warning (Some example_warning)"
  by (simp add: is_memory_warning_def chunk_msg_def includes_str_def example_warning_def
      sublist_Cons_right)

lemma example_errors_kept:
  "\<not> is_memory_warning (Some ''Error: Could not allocate witness buffer'')"
  "\<not> is_memory_warning (Some ''severe instability in the prover'')"
  by (simp_all add: is_memory_warning_def chunk_msg_def includes_str_def sublist_Cons_right)

lemma overlapping_process:
  "stderr_write (snd (generateProof_overlapping lib circ input1 input2 p)) =
     stderr_hook (stderr_write p)"
  by (simp add: generateProof_overlapping_def install_hook_def settle_def prover_writes_def
      restore_write_def split: prod.splits)

text \<open>
  C5. The claim is that \<open>generateProof\<close> has its filter installed only for the duration of
  the call and puts the original \<open>stderr\<close> write function back when it completes. The code
  saves and restores around an \<open>await\<close>, and for two overlapping calls it does not keep
  that: both calls return their results, yet the first call's \<open>finally\<close> removes the filter
  while the second prover still runs, so the second call's memory warning reaches the
  stream, and the second call's \<open>finally\<close> then writes back the first call's hook, which
  stays installed after both calls have completed and still drops the warning that the
  original function prints.
\<close>

theorem overlapping_calls_leave_hook:
  "fst (fst (generateProof_overlapping example_lib example_circuit example_input example_input
               example_process)) =
     fst (generateProof example_lib example_circuit example_input example_process) \<and>
   snd (fst (generateProof_overlapping example_lib example_circuit example_input example_input
               example_process)) =
     fst (generateProof example_lib example_circuit example_input example_process) \<and>
   isl (fst (generateProof example_lib example_circuit example_input example_process)) = False \<and>
   stderr_write example_process (Some example_warning) Undefined None [] =
     (True, [example_warning]) \<and>
   stderr_write
     (snd (generateProof_overlapping example_lib example_circuit example_input example_input
             example_process))
     (Some example_warning) Undefined None [] = (True, []) \<and>
   stderr (snd (generateProof_overlapping example_lib example_circuit example_input example_input
                  example_process)) =
     [''Error: Could not allocate witness buffer'', ''severe instability in the prover'',
      example_warning,
      ''Error: Could not allocate witness buffer'', ''severe instability in the prover'']"
proof (intro conjI)
  show "fst (fst (generateProof_overlapping example_lib example_circuit example_input example_input
               example_process)) =
     fst (generateProof example_lib example_circuit example_input example_process)"
    by (simp add: generateProof_overlapping_def generateProof_def install_hook_def settle_def
        split: prod.splits)
  show "snd (fst (generateProof_overlapping example_lib example_circuit example_input example_input
               example_process)) =
     fst (generateProof example_lib example_circuit example_input example_process)"
    by (simp add: generateProof_overlapping_def generateProof_def install_hook_def settle_def
        split: prod.splits)
  show "isl (fst (generateProof example_lib example_circuit example_input example_process)) = False"
    by (simp add: generateProof_eval)
  show "stderr_write example_process (Some example_warning) Undefined None [] =
     (True, [example_warning])"
    by (simp add: example_process_def terminal_write_def chunk_msg_def)
  show "stderr_write
     (snd (generateProof_overlapping example_lib example_circuit example_input example_input
             example_process))
     (Some example_warning) Undefined None [] = (True, [])"
    by (simp add: overlapping_process stderr_hook_def example_warning_suppressed)
  have w: "is_memory_warning (Some example_warning)"
    "\<not> is_memory_warning (Some ''Error: Could not allocate witness buffer'')"
    "\<not> is_memory_warning (Some ''severe instability in the prover'')"
    by (simp_all add: example_warning_suppressed example_errors_kept)
  show "stderr (snd (generateProof_overlapping example_lib example_circuit example_input example_input
                  example_process)) =
     [''Error: Could not allocate witness buffer'', ''severe instability in the prover'',
      example_warning,
      ''Error: Could not allocate witness buffer'', ''severe instability in the prover'']"
    using w
    by (simp add: generateProof_overlapping_def install_hook_def settle_def prover_writes_def
        restore_write_def example_lib_def example_writes_def example_process_def
        stderr_hook_def terminal_write_def chunk_msg_def)
qed

section \<open>\<open>verifyProof\<close>\<close>

text \<open>
  C4 as stated fails for a mismatched public-signal count: \<open>verifyProof\<close> has no \<open>catch\<close>,
  so when the library throws on a list with more public signals than the key has inputs,
  here \<open>["6", "7"]\<close> for the one-output circuit, the call throws instead of returning
  \<open>false\<close>.
\<close>

theorem verifyProof_longer_signals_counterexample:
  "verifyProof strict_lib example_circuit example_proof [''6'', ''7''] =
     Inl (TypeError ''Cannot read properties of undefined'')"
  by (simp add: verifyProof_def strict_lib_def)

text \<open>
  C4, amended. \<open>verifyProof\<close> yields what \<open>groth16.verify\<close> yields for the exported key and
  adds no fault of its own: it returns \<open>false\<close> exactly when the key is exported and the
  library's verdict is \<open>false\<close>, and it throws exactly when the export or the library
  throws, with that error.
\<close>

theorem verifyProof_outcomes:
  "(\<forall>vkey. exportVerificationKey lib (zkeyPath circ) = Inr vkey \<longrightarrow>
      verifyProof lib circ prf publicSignals = verify lib vkey publicSignals prf) \<and>
   (\<forall>err. exportVerificationKey lib (zkeyPath circ) = Inl err \<longrightarrow>
      verifyProof lib circ prf publicSignals = Inl err) \<and>
   (verifyProof lib circ prf publicSignals = Inr False \<longleftrightarrow>
      (\<exists>vkey. exportVerificationKey lib (zkeyPath circ) = Inr vkey \<and>
              verify lib vkey publicSignals prf = Inr False)) \<and>
   (\<forall>err. verifyProof lib circ prf publicSignals = Inl err \<longleftrightarrow>
      exportVerificationKey lib (zkeyPath circ) = Inl err \<or>
      (\<exists>vkey. exportVerificationKey lib (zkeyPath circ) = Inr vkey \<and>
              verify lib vkey publicSignals prf = Inl err))"
  by (cases "exportVerificationKey lib (zkeyPath circ)") (simp_all add: verifyProof_def)

theorem verifyProof_outcomes_witness:
  "exportVerificationKey strict_lib (zkeyPath example_circuit) = Inr [''IC0'', ''IC1''] \<and>
   verify strict_lib [''IC0'', ''IC1''] [''7''] example_proof = Inr False \<and>
   verifyProof strict_lib example_circuit example_proof [''7''] = Inr False \<and>
   verify strict_lib [''IC0'', ''IC1''] [''6''] example_proof = Inr True \<and>
   verifyProof strict_lib example_circuit example_proof [''6''] = Inr True"
proof -
  have k: "exportVerificationKey strict_lib (zkeyPath example_circuit) = Inr [''IC0'', ''IC1'']"
    by (simp add: strict_lib_def)
  have f: "verify strict_lib [''IC0'', ''IC1''] [''7''] example_proof = Inr False"
    and t: "verify strict_lib [''IC0'', ''IC1''] [''6''] example_proof = Inr True"
    by (simp_all add: strict_lib_def)
  from verifyProof_outcomes [of strict_lib example_circuit example_proof "[''7'']"] k f
  have 1: "verifyProof strict_lib example_circuit example_proof [''7''] = Inr False"
    by simp
  from verifyProof_outcomes [of strict_lib example_circuit example_proof "[''6'']"] k t
  have 2: "verifyProof strict_lib example_circuit example_proof [''6''] = Inr True"
    by simp
  from k f 1 t 2 show ?thesis by blast
qed

section \<open>The contract \<open>Multiplier\<close>\<close>

text \<open>
  C8 as stated fails: with an accepting verifier and an empty \<open>_pubSignals\<close> the call does
  not emit and return \<open>true\<close>, it panics on \<open>_pubSignals[0]\<close>.
\<close>

theorem check_every_call_counterexample:
  "accepting_chain (verifier example_multiplier) (0, 0) ((0, 0), (0, 0)) (0, 0) [] = Returned True \<and>
   check accepting_chain example_multiplier 0xCAFE (0, 0) ((0, 0), (0, 0)) (0, 0) [] =
     Inl (Panic 0x32)"
  by (simp add: check_def accepting_chain_def)

text \<open>
  C8, amended. When the verifier call returns a boolean, \<open>check\<close> reverts with
  \<open>invalid proof\<close> exactly when that boolean is \<open>false\<close>; when it is \<open>true\<close> and
  \<open>_pubSignals\<close> is not empty, \<open>check\<close> emits \<open>Verified\<close> with the first public signal and
  the caller and returns \<open>true\<close>. A revert of the verifier itself is passed on.
\<close>

theorem check_outcomes:
  "(\<forall>ok. chain (verifier this) pA pB pC pubSignals = Returned ok \<longrightarrow>
      (check chain this sender pA pB pC pubSignals = Inl (RequireFailed ''invalid proof'')
       \<longleftrightarrow> \<not> ok)) \<and>
   (\<forall>s0 rest. chain (verifier this) pA pB pC pubSignals = Returned True \<longrightarrow>
      pubSignals = s0 # rest \<longrightarrow>
      check chain this sender pA pB pC pubSignals = Inr (True, [Verified s0 sender])) \<and>
   (\<forall>r. chain (verifier this) pA pB pC pubSignals = Reverted r \<longrightarrow>
      check chain this sender pA pB pC pubSignals = Inl r)"
  by (auto simp: check_def split: list.splits)

theorem check_outcomes_witness:
  "rejecting_chain (verifier example_multiplier) (1, 2) ((3, 4), (5, 6)) (7, 8) [42] = Returned False \<and>
   check rejecting_chain example_multiplier 0xCAFE (1, 2) ((3, 4), (5, 6)) (7, 8) [42] =
     Inl (RequireFailed ''invalid proof'') \<and>
   accepting_chain (verifier example_multiplier) (1, 2) ((3, 4), (5, 6)) (7, 8) [42] = Returned True \<and>
   check accepting_chain example_multiplier 0xCAFE (1, 2) ((3, 4), (5, 6)) (7, 8) [42] =
     Inr (True, [Verified 42 0xCAFE])"
proof -
  have r: "rejecting_chain (verifier example_multiplier) (1, 2) ((3, 4), (5, 6)) (7, 8) [42] = Returned False"
    by (simp add: rejecting_chain_def)
  have a: "accepting_chain (verifier example_multiplier) (1, 2) ((3, 4), (5, 6)) (7, 8) [42] = Returned True"
    by (simp add: accepting_chain_def)
  from check_outcomes [of rejecting_chain example_multiplier "(1, 2)" "((3, 4), (5, 6))" "(7, 8)" "[42]" "0xCAFE"] r
  have 1: "check rejecting_chain example_multiplier 0xCAFE (1, 2) ((3, 4), (5, 6)) (7, 8) [42] =
     Inl (RequireFailed ''invalid proof'')"
    by blast
  from check_outcomes [of accepting_chain example_multiplier "(1, 2)" "((3, 4), (5, 6))" "(7, 8)" "[42]" "0xCAFE"] a
  have 2: "check accepting_chain example_multiplier 0xCAFE (1, 2) ((3, 4), (5, 6)) (7, 8) [42] =
     Inr (True, [Verified 42 0xCAFE])"
    by blast
  from r 1 a 2 show ?thesis by blast
qed

text \<open>
  C10. \<open>check\<close> with an empty \<open>_pubSignals\<close> always reverts, and with the index
  out-of-bounds panic \<open>0x32\<close> when the verifier returns \<open>true\<close>.
\<close>

theorem check_empty_pubSignals_reverts:
  "isl (check chain this sender pA pB pC []) \<and>
   (chain (verifier this) pA pB pC [] = Returned True \<longrightarrow>
      check chain this sender pA pB pC [] = Inl (Panic 0x32))"
  by (cases "chain (verifier this) pA pB pC []") (simp_all add: check_def)

theorem check_empty_pubSignals_reverts_witness:
  "accepting_chain (verifier example_multiplier) (1, 2) ((3, 4), (5, 6)) (7, 8) [] = Returned True \<and>
   check accepting_chain example_multiplier 0xBEEF (1, 2) ((3, 4), (5, 6)) (7, 8) [] = Inl (Panic 0x32)"
proof -
  have a: "accepting_chain (verifier example_multiplier) (1, 2) ((3, 4), (5, 6)) (7, 8) [] = Returned True"
    by (simp add: accepting_chain_def)
  with check_empty_pubSignals_reverts [of accepting_chain example_multiplier "0xBEEF" "(1, 2)" "((3, 4), (5, 6))" "(7, 8)"]
  show ?thesis by blast
qed

end
